theory Spec2Isabelle
  imports Main "HOL-Library.Word" "HOL-Library.Sublist"
begin

section \<open>Data model of the chain controller\<close>

text \<open>
  The types below follow \<^verbatim>\<open>src/libraries/chain/chain_controller.cpp\<close> and
  \<^verbatim>\<open>src/contracts/eosiolib/types.h\<close>. Names are 64-bit integers, block numbers are
  32-bit. A block id carries the block number in its leading 32 bits; it is kept here as a
  pair of that number and the remaining digest.
\<close>

type_synonym account_name = "64 word"
type_synonym permission_name = "64 word"
type_synonym scope_name = "64 word"
type_synonym action_name = "64 word"
type_synonym block_num_type = "32 word"
type_synonym block_id_type = "32 word \<times> nat"
type_synonym transaction_id_type = nat
type_synonym digest_type = nat
type_synonym public_key_type = nat
type_synonym chain_id_type = nat
type_synonym time_point = int
type_synonym block_timestamp_type = "32 word"

text \<open>
  The exceptions the controller raises. \<open>assert_exception\<close> is a failed
  \<^verbatim>\<open>FC_ASSERT\<close>, \<open>key_not_found\<close> a failed store lookup, \<open>out_of_range\<close> an access
  the source leaves undefined, \<open>aborted\<close> a failed C \<^verbatim>\<open>assert\<close>, which no handler
  catches, and \<open>exec_failed\<close> an error raised by contract code.
\<close>

datatype error =
    unknown_block_exception
  | pop_empty_chain
  | block_validate_exception
  | transaction_exception
  | tx_duplicate
  | tx_missing_sigs
  | tx_irrelevant_sig
  | tx_irrelevant_auth
  | assert_exception
  | key_not_found
  | out_of_range
  | aborted
  | no_common_ancestor
  | exec_failed nat

record producer_key =
  producer_name :: account_name
  block_signing_key :: public_key_type

record producer_schedule_type =
  version :: "32 word"
  producers :: "producer_key list"

record producer_object =
  owner :: account_name
  signing_key :: public_key_type
  last_confirmed_block_num :: "32 word"
  last_aslot :: "64 word"
  total_missed :: "64 word"

record permission_level =
  actor :: account_name
  permission :: permission_name

record action =
  act_scope :: scope_name
  act_name :: action_name
  authorization :: "permission_level list"
  act_data :: "8 word list"

record signed_transaction =
  expiration :: time_point
  ref_block_num :: "16 word"
  ref_block_prefix :: "32 word"
  read_scope :: "scope_name list"
  write_scope :: "scope_name list"
  actions :: "action list"
  signatures :: "nat list"

datatype receipt_status = executed | soft_fail | hard_fail | delayed

record transaction_receipt =
  status :: receipt_status
  receipt_id :: transaction_id_type

record region_summary =
  region :: "16 word"
  cycles_summary :: "transaction_receipt list list list"

record signed_block =
  previous :: block_id_type
  timestamp :: block_timestamp_type
  producer :: account_name
  transaction_mroot :: digest_type
  action_mroot :: digest_type
  block_mroot :: digest_type
  new_producers :: "producer_schedule_type option"
  producer_signature :: nat
  regions :: "region_summary list"
  input_transactions :: "signed_transaction list"

record deferred_transaction =
  dt_trx :: signed_transaction
  sender :: account_name
  sender_id :: "32 word"
  execute_after :: time_point

record action_trace =
  receiver :: account_name
  act :: action
  console :: string
  region_id :: "16 word"
  cycle_index :: "32 word"

record transaction_trace =
  trace_id :: transaction_id_type
  action_traces :: "action_trace list"
  deferred_transactions :: "deferred_transaction list"

record shard_trace =
  shard_root :: digest_type
  transaction_traces :: "transaction_trace list"

record cycle_trace =
  shard_traces :: "shard_trace list"

record region_trace =
  cycle_traces :: "cycle_trace list"

record block_trace =
  trace_block :: signed_block
  region_traces :: "region_trace list"

record transaction_metadata =
  meta_trx :: signed_transaction
  meta_id :: transaction_id_type
  meta_chain_id :: chain_id_type
  meta_region_id :: "16 word"
  meta_cycle_index :: "32 word"
  meta_shard_index :: "32 word"
  bandwidth_usage :: nat

record generated_transaction_object =
  gto_trx_id :: transaction_id_type
  gto_sender :: account_name
  gto_sender_id :: "32 word"
  gto_expiration :: time_point
  gto_delay_until :: time_point
  gto_packed_trx :: "8 word list"

record authority =
  threshold :: "32 word"
  auth_keys :: "(public_key_type \<times> 16 word) list"
  auth_accounts :: "(permission_level \<times> 16 word) list"

record permission_object =
  perm_owner :: account_name
  perm_name :: permission_name
  perm_parent :: "(account_name \<times> permission_name) option"
  auth :: authority

record transaction_object =
  trx_id :: transaction_id_type
  trx_expiration :: time_point

text \<open>
  The versioned store's contents: the dynamic global property object, the global property
  object and the indexes the controller reads and writes. \<open>contract_tables\<close> stands for
  the tables that only contract code touches.
\<close>

record database =
  head_block_number :: "32 word"
  head_block_id :: block_id_type
  time :: time_point
  current_producer :: account_name
  current_absolute_slot :: "64 word"
  recent_slots_filled :: "64 word"
  last_irreversible_block_num :: "32 word"
  block_merkle_root :: "block_id_type list"
  averge_block_size :: "(nat \<times> block_timestamp_type) list"
  active_producers :: producer_schedule_type
  pending_active_producers :: "(block_num_type \<times> producer_schedule_type) list"
  max_authority_depth :: nat
  max_transaction_lifetime :: int
  producer_index :: "account_name \<rightharpoonup> producer_object"
  producers_by_vote :: "account_name list"
  block_summary_index :: "16 word \<rightharpoonup> block_id_type"
  transaction_index :: "transaction_object list"
  generated_transaction_index :: "generated_transaction_object list"
  account_index :: "account_name list"
  permission_index :: "permission_object list"
  permission_link_index :: "(account_name \<times> scope_name \<times> action_name) \<rightharpoonup> permission_name"
  bandwidth_usage_index :: "account_name \<rightharpoonup> (nat \<times> time_point) list"
  staked_balance_index :: "account_name \<rightharpoonup> nat"
  contract_tables :: "nat list"


section \<open>Collaborators and controller state\<close>

text \<open>
  Constants of \<^verbatim>\<open>config::\<close> and the primitives the controller calls but does not
  define (hashing, Merkle roots, signature checks, contract execution, the cycle
  scheduler, time conversions) are the fields of an environment passed to every function.
\<close>

record pending_cycle_state =
  cycle_read_scopes :: "scope_name list"
  cycle_write_scopes :: "(scope_name \<times> nat) list"

record env =
  blocks_per_round :: nat
  producer_repititions :: nat
  producer_count :: nat
  percent_100 :: nat
  irreversible_threshold_percent :: nat
  fixed_bandwidth_overhead_per_transaction :: nat
  active_name :: permission_name
  eosio_all_scope :: scope_name
  eosio_auth_scope :: scope_name
  producers_account_name :: account_name
  producers_authority_threshold :: "32 word"
  the_chain_id :: chain_id_type
  block_digest :: "signed_block \<Rightarrow> nat"
  transaction_digest :: "signed_transaction \<Rightarrow> transaction_id_type"
  merkle :: "digest_type list \<Rightarrow> digest_type"
  block_merkle :: "block_id_type list \<Rightarrow> digest_type"
  action_trace_digest :: "action_trace \<Rightarrow> digest_type"
  validate_signee :: "signed_block \<Rightarrow> public_key_type \<Rightarrow> bool"
  sign_block :: "signed_block \<Rightarrow> nat \<Rightarrow> nat"
  get_public_key :: "nat \<Rightarrow> public_key_type"
  recover_keys :: "chain_id_type \<Rightarrow> signed_transaction \<Rightarrow> public_key_type list"
  to_time_point :: "block_timestamp_type \<Rightarrow> time_point"
  to_block_timestamp :: "time_point \<Rightarrow> block_timestamp_type"
  seconds :: "int \<Rightarrow> int"
  exec :: "database \<Rightarrow> signed_transaction \<Rightarrow> action \<Rightarrow>
             error + (database \<times> action_trace list \<times> deferred_transaction list)"
  schedule :: "pending_cycle_state \<Rightarrow> signed_transaction \<Rightarrow> int \<times> pending_cycle_state"
  pack_size :: "signed_block \<Rightarrow> nat"
  transaction_pack_size :: "signed_transaction \<Rightarrow> nat"
  pack_deferred :: "deferred_transaction \<Rightarrow> 8 word list"

record fork_database =
  fork_index :: "signed_block list"
  fork_head :: "signed_block option"
  fork_max_size :: "32 word"

record controller =
  db :: database
  undo_stack :: "database list"
  revision :: int
  fork_db :: fork_database
  block_log :: "signed_block list"
  pending_block :: "signed_block option"
  pending_block_trace :: "block_trace option"
  pending_block_session :: bool
  pending_cycle :: pending_cycle_state
  pending_cycle_trace :: "cycle_trace option"
  checkpoints :: "(block_num_type \<times> block_id_type) list"
  skip_flags :: "32 word"
  currently_applying_block :: bool
  currently_replaying_blocks :: bool
  irreversible_signals :: "signed_block list"
  applied_signals :: "block_trace list"
  pending_transaction_signals :: "signed_transaction list"

text \<open>
  A controller operation may fail with an error (the state it leaves behind is kept, as
  after a C++ exception) or may not return at all (\<open>None\<close>).
\<close>

type_synonym 'a outcome = "((error + 'a) \<times> controller) option"

subsection \<open>Blocks and their ids\<close>

definition block_num :: "signed_block \<Rightarrow> block_num_type" where
  "block_num b = fst (previous b) + 1"

definition block_id :: "env \<Rightarrow> signed_block \<Rightarrow> block_id_type" where
  "block_id E b = (block_num b, block_digest E b)"

definition null_block_id :: block_id_type where
  "null_block_id = (0, 0)"

subsection \<open>Block log\<close>

text \<open>
  Modelled from the spec: the block log is not among the sources. It is an append-only
  sequence of blocks; \<open>append\<close> adds at the end, \<open>head\<close> is the last block appended,
  and blocks are read back by number or by id.
\<close>

definition block_log_head :: "signed_block list \<Rightarrow> signed_block option" where
  "block_log_head lg = (if lg = [] then None else Some (last lg))"

definition read_block_by_num :: "signed_block list \<Rightarrow> block_num_type \<Rightarrow> signed_block option" where
  "read_block_by_num lg n = find (\<lambda>b. block_num b = n) lg"

definition read_block_by_id :: "env \<Rightarrow> signed_block list \<Rightarrow> block_id_type \<Rightarrow> signed_block option" where
  "read_block_by_id E lg i = find (\<lambda>b. block_id E b = i) lg"

definition block_log_append :: "signed_block list \<Rightarrow> signed_block \<Rightarrow> signed_block list" where
  "block_log_append lg b = lg @ [b]"

subsection \<open>Fork database\<close>

text \<open>
  Modelled from the spec: the fork database is not among the sources. It stores
  unconfirmed blocks keyed by id and linked by \<open>previous\<close>; the weak parent reference of
  an item is the lookup of its \<open>previous\<close> id in the index.
\<close>

definition fork_fetch_block :: "env \<Rightarrow> fork_database \<Rightarrow> block_id_type \<Rightarrow> signed_block option" where
  "fork_fetch_block E f i = find (\<lambda>b. block_id E b = i) (fork_index f)"

definition fork_prev :: "env \<Rightarrow> fork_database \<Rightarrow> signed_block \<Rightarrow> signed_block option" where
  "fork_prev E f b = fork_fetch_block E f (previous b)"

definition fork_set_max_size :: "fork_database \<Rightarrow> 32 word \<Rightarrow> fork_database" where
  "fork_set_max_size f n =
     (case fork_head f of
        None \<Rightarrow> f\<lparr>fork_max_size := n\<rparr>
      | Some h \<Rightarrow> f\<lparr>fork_max_size := n,
                    fork_index := filter (\<lambda>b. \<not> (unat (block_num b) + unat n < unat (block_num h)))
                                    (fork_index f)\<rparr>)"


subsection \<open>Versioned store\<close>

text \<open>
  Modelled from the spec: the versioned store is not among the sources. Its undo history
  is a stack of saved database states, the most recent first; each open or pushed session
  owns one entry. Dropping a session without pushing it, and \<open>undo\<close>, restore the top
  entry; \<open>squash\<close> folds the top session into its parent; \<open>commit r\<close> discards the undo
  records of every revision up to \<open>r\<close>.
\<close>

definition start_undo_session :: "controller \<Rightarrow> controller" where
  "start_undo_session c = c\<lparr>undo_stack := db c # undo_stack c, revision := revision c + 1\<rparr>"

definition db_undo :: "controller \<Rightarrow> controller" where
  "db_undo c =
     (case undo_stack c of
        [] \<Rightarrow> c
      | d # ds \<Rightarrow> c\<lparr>db := d, undo_stack := ds, revision := revision c - 1\<rparr>)"

definition db_squash :: "controller \<Rightarrow> controller" where
  "db_squash c =
     (case undo_stack c of
        [] \<Rightarrow> c
      | d # ds \<Rightarrow> c\<lparr>undo_stack := ds, revision := revision c - 1\<rparr>)"

definition db_commit :: "int \<Rightarrow> controller \<Rightarrow> controller" where
  "db_commit r c = c\<lparr>undo_stack := take (nat (revision c - r)) (undo_stack c)\<rparr>"

definition db_modify :: "(database \<Rightarrow> database) \<Rightarrow> controller \<Rightarrow> controller" where
  "db_modify f c = c\<lparr>db := f (db c)\<rparr>"

subsection \<open>Read accessors\<close>

definition head_block_time :: "controller \<Rightarrow> time_point" where
  "head_block_time c = time (db c)"

definition head_block_num :: "controller \<Rightarrow> 32 word" where
  "head_block_num c = head_block_number (db c)"

definition get_head_block_id :: "controller \<Rightarrow> block_id_type" where
  "get_head_block_id c = head_block_id (db c)"

definition get_last_irreversible_block_num :: "controller \<Rightarrow> 32 word" where
  "get_last_irreversible_block_num c = last_irreversible_block_num (db c)"

definition get_producer :: "database \<Rightarrow> account_name \<Rightarrow> error + producer_object" where
  "get_producer d n = (case producer_index d n of None \<Rightarrow> Inl key_not_found | Some p \<Rightarrow> Inr p)"

definition fetch_block_by_id :: "env \<Rightarrow> controller \<Rightarrow> block_id_type \<Rightarrow> signed_block option" where
  "fetch_block_by_id E c i =
     (case fork_fetch_block E (fork_db c) i of
        Some b \<Rightarrow> Some b
      | None \<Rightarrow> read_block_by_id E (block_log c) i)"

text \<open>
  The walk of \<^verbatim>\<open>fetch_block_by_number\<close> from the fork head towards the root:
  \<^verbatim>\<open>while (block && block->num > num) block = block->prev.lock();\<close>
\<close>

function fork_walk :: "env \<Rightarrow> fork_database \<Rightarrow> signed_block option \<Rightarrow> 32 word \<Rightarrow> signed_block option" where
  "fork_walk E f None n = None"
| "fork_walk E f (Some b) n = (if block_num b > n then fork_walk E f (fork_prev E f b) n else Some b)"
  by pat_completeness auto

termination fork_walk
proof (relation "measure (\<lambda>(E, f, ob, n). case ob of None \<Rightarrow> 0 | Some b \<Rightarrow> Suc (unat (block_num b)))")
  show "wf (measure (\<lambda>(E, f, ob, n). case ob of None \<Rightarrow> 0 | Some b \<Rightarrow> Suc (unat (block_num b))))"
    by simp
next
  fix E :: env and f :: fork_database and b :: signed_block and n :: "32 word"
  assume gt: "n < block_num b"
  have nz: "block_num b \<noteq> 0"
    using gt by (metis word_not_simps(1))
  show "((E, f, fork_prev E f b, n), (E, f, Some b, n))
          \<in> measure (\<lambda>(E, f, ob, n). case ob of None \<Rightarrow> 0 | Some b \<Rightarrow> Suc (unat (block_num b)))"
  proof (cases "fork_prev E f b")
    case None
    then show ?thesis by simp
  next
    case (Some x)
    then have "block_id E x = previous b"
      unfolding fork_prev_def fork_fetch_block_def by (auto simp: find_Some_iff)
    then have "fst (block_id E x) = fst (previous b)"
      by simp
    then have "block_num x = fst (previous b)"
      by (simp add: block_id_def)
    then have "block_num x = block_num b - 1"
      by (simp add: block_num_def)
    then have "unat (block_num x) < unat (block_num b)"
      using nz by (simp add: unat_minus_one unat_gt_0)
    with Some show ?thesis by simp
  qed
qed

definition fetch_block_by_number :: "env \<Rightarrow> controller \<Rightarrow> 32 word \<Rightarrow> signed_block option" where
  "fetch_block_by_number E c n =
     (case read_block_by_num (block_log c) n of
        Some b \<Rightarrow> Some b
      | None \<Rightarrow>
          if n \<le> head_block_num c then
            (case fork_walk E (fork_db c) (fork_head (fork_db c)) n of
               Some b \<Rightarrow> if block_num b = n then Some b else None
             | None \<Rightarrow> None)
          else None)"


section \<open>Irreversibility\<close>

fun collect_producers :: "database \<Rightarrow> producer_key list \<Rightarrow> error + producer_object list" where
  "collect_producers d [] = Inr []"
| "collect_producers d (pk # pks) =
     (case get_producer d (producer_name pk) of
        Inl e \<Rightarrow> Inl e
      | Inr p \<Rightarrow> (case collect_producers d pks of Inl e \<Rightarrow> Inl e | Inr ps \<Rightarrow> Inr (p # ps)))"

text \<open>
  Modelled from the spec: the macro \<^verbatim>\<open>EOS_PERCENT\<close> is not among the sources; the spec
  gives \<open>(100 - irreversible_threshold_percent) * L / 100\<close>, with \<open>percent_100\<close> for 100.
\<close>

definition EOS_PERCENT :: "env \<Rightarrow> nat \<Rightarrow> nat \<Rightarrow> nat" where
  "EOS_PERCENT E v p = (v * p) div percent_100 E"

text \<open>
  \<^verbatim>\<open>std::nth_element\<close> at \<open>offset\<close> under the order on \<open>last_confirmed_block_num\<close>
  leaves at \<open>offset\<close> an element that a full sort would put there; only that number is read.
\<close>

definition nth_confirmed :: "producer_object list \<Rightarrow> nat \<Rightarrow> 32 word" where
  "nth_confirmed objs offset = sort (map last_confirmed_block_num objs) ! offset"

fun write_irreversible :: "env \<Rightarrow> 32 word list \<Rightarrow> controller \<Rightarrow> (error + unit) \<times> controller" where
  "write_irreversible E [] c = (Inr (), c)"
| "write_irreversible E (n # ns) c =
     (case fetch_block_by_number E c n of
        None \<Rightarrow> (Inl aborted, c)
      | Some b \<Rightarrow> write_irreversible E ns
                   (c\<lparr>block_log := block_log_append (block_log c) b,
                      irreversible_signals := irreversible_signals c @ [b]\<rparr>))"

definition find_new_schedule ::
  "32 word \<Rightarrow> (block_num_type \<times> producer_schedule_type) list \<Rightarrow> producer_schedule_type option" where
  "find_new_schedule new_lib pend =
     foldl (\<lambda>acc item. if fst item < new_lib then Some (snd item) else acc) None pend"

text \<open>
  The loop
  \<^verbatim>\<open>while (gpo.pending_active_producers.size()) { if (front().first < new_lib) erase(begin()); }\<close>
  where \<open>gpo\<close> and \<open>props\<close> are the same object.
\<close>

partial_function (option) erase_pending ::
  "32 word \<Rightarrow> (block_num_type \<times> producer_schedule_type) list \<Rightarrow>
     (block_num_type \<times> producer_schedule_type) list option" where
  [code]: "erase_pending new_lib pend =
     (if length pend \<noteq> 0 then
        (if fst (hd pend) < new_lib then erase_pending new_lib (tl pend)
         else erase_pending new_lib pend)
      else Some pend)"

definition activate_pending :: "32 word \<Rightarrow> 32 word \<Rightarrow> controller \<Rightarrow> controller option" where
  "activate_pending new_lib last_block_on_disk c =
     (if new_lib > last_block_on_disk then
        (case find_new_schedule new_lib (pending_active_producers (db c)) of
           None \<Rightarrow> Some c
         | Some sch \<Rightarrow>
             Option.bind (erase_pending new_lib (pending_active_producers (db c)))
               (\<lambda>pend. Some (db_modify (\<lambda>d. d\<lparr>pending_active_producers := pend,
                                               active_producers := sch\<rparr>) c)))
      else Some c)"

definition advance_lib :: "32 word \<Rightarrow> controller \<Rightarrow> controller" where
  "advance_lib new_lib c =
     (if new_lib > last_irreversible_block_num (db c)
      then db_modify (\<lambda>d. d\<lparr>last_irreversible_block_num := new_lib\<rparr>) c
      else c)"

definition last_block_on_disk :: "controller \<Rightarrow> 32 word" where
  "last_block_on_disk c = (case block_log_head (block_log c) of None \<Rightarrow> 0 | Some b \<Rightarrow> block_num b)"

definition write_newly_irreversible :: "env \<Rightarrow> 32 word \<Rightarrow> controller \<Rightarrow> (error + unit) \<times> controller" where
  "write_newly_irreversible E new_lib c =
     (if last_block_on_disk c < new_lib
      then write_irreversible E (map of_nat [unat (last_block_on_disk c) + 1 ..< unat new_lib + 1]) c
      else (Inr (), c))"

definition trim_and_commit :: "32 word \<Rightarrow> controller \<Rightarrow> controller" where
  "trim_and_commit new_lib c =
     db_commit (uint new_lib)
       (c\<lparr>fork_db := fork_set_max_size (fork_db c) (head_block_num c - new_lib + 1)\<rparr>)"

definition update_last_irreversible_block :: "env \<Rightarrow> controller \<Rightarrow> unit outcome" where
  "update_last_irreversible_block E c =
     (case collect_producers (db c) (producers (active_producers (db c))) of
        Inl e \<Rightarrow> Some (Inl e, c)
      | Inr producer_objs \<Rightarrow>
          let offset = EOS_PERCENT E (length producer_objs)
                         (percent_100 E - irreversible_threshold_percent E)
          in if \<not> offset < length producer_objs then Some (Inl out_of_range, c)
             else
               let new_lib = nth_confirmed producer_objs offset;
                   c1 = advance_lib new_lib c;
                   on_disk = last_block_on_disk c1
               in (case write_newly_irreversible E new_lib c1 of
                     (Inl e, c2) \<Rightarrow> Some (Inl e, c2)
                   | (Inr u, c2) \<Rightarrow>
                       Option.bind (activate_pending new_lib on_disk c2)
                         (\<lambda>c3. Some (Inr (), trim_and_commit new_lib c3))))"

section \<open>Skip flags and the error monad\<close>

text \<open>
  The skip flags are single bits of a 32-bit field. The header that numbers them is not
  among the sources; the positions below are those of the validation-step enumeration the
  controller is compiled against.
\<close>

definition skip_producer_signature :: "32 word" where "skip_producer_signature = 1"
definition skip_transaction_signatures :: "32 word" where "skip_transaction_signatures = 2"
definition skip_transaction_dupe_check :: "32 word" where "skip_transaction_dupe_check = 4"
definition skip_fork_db :: "32 word" where "skip_fork_db = 8"
definition skip_tapos_check :: "32 word" where "skip_tapos_check = 32"
definition skip_authority_check :: "32 word" where "skip_authority_check = 64"
definition skip_merkle_check :: "32 word" where "skip_merkle_check = 128"
definition skip_producer_schedule_check :: "32 word" where "skip_producer_schedule_check = 1024"
definition skip_scope_check :: "32 word" where "skip_scope_check = 4096"
definition received_block :: "32 word" where "received_block = 65536"

definition flag_set :: "32 word \<Rightarrow> 32 word \<Rightarrow> bool" where
  "flag_set skip f = (and skip f \<noteq> 0)"

definition ret :: "'a \<Rightarrow> controller \<Rightarrow> 'a outcome" where
  "ret x c = Some (Inr x, c)"

definition throw :: "error \<Rightarrow> controller \<Rightarrow> 'a outcome" where
  "throw e c = Some (Inl e, c)"

definition bnd :: "(controller \<Rightarrow> 'a outcome) \<Rightarrow> ('a \<Rightarrow> controller \<Rightarrow> 'b outcome) \<Rightarrow> controller \<Rightarrow> 'b outcome" where
  "bnd m k c =
     (case m c of
        None \<Rightarrow> None
      | Some (Inl e, c') \<Rightarrow> Some (Inl e, c')
      | Some (Inr x, c') \<Rightarrow> k x c')"

definition lift :: "(database \<Rightarrow> error + 'a) \<Rightarrow> controller \<Rightarrow> 'a outcome" where
  "lift f c = (case f (db c) of Inl e \<Rightarrow> Some (Inl e, c) | Inr x \<Rightarrow> Some (Inr x, c))"

definition modify :: "(controller \<Rightarrow> controller) \<Rightarrow> controller \<Rightarrow> unit outcome" where
  "modify f c = Some (Inr (), f c)"

definition require :: "bool \<Rightarrow> error \<Rightarrow> controller \<Rightarrow> unit outcome" where
  "require b e c = (if b then Some (Inr (), c) else Some (Inl e, c))"

text \<open>
  \<^verbatim>\<open>with_skip_flags\<close> and \<^verbatim>\<open>with_applying_block\<close> set a member for the duration of
  a call and restore it on every exit.
\<close>

definition with_skip_flags :: "32 word \<Rightarrow> (controller \<Rightarrow> 'a outcome) \<Rightarrow> controller \<Rightarrow> 'a outcome" where
  "with_skip_flags skip f c =
     (case f (c\<lparr>skip_flags := skip\<rparr>) of
        None \<Rightarrow> None
      | Some (r, c') \<Rightarrow> Some (r, c'\<lparr>skip_flags := skip_flags c\<rparr>))"

definition with_applying_block :: "(controller \<Rightarrow> 'a outcome) \<Rightarrow> controller \<Rightarrow> 'a outcome" where
  "with_applying_block f c =
     (case f (c\<lparr>currently_applying_block := True\<rparr>) of
        None \<Rightarrow> None
      | Some (r, c') \<Rightarrow> Some (r, c'\<lparr>currently_applying_block := currently_applying_block c\<rparr>))"

section \<open>Scheduler\<close>

definition is_start_of_round :: "env \<Rightarrow> 32 word \<Rightarrow> bool" where
  "is_start_of_round E n = (unat n mod blocks_per_round E = 0)"

definition get_scheduled_producer :: "env \<Rightarrow> database \<Rightarrow> 32 word \<Rightarrow> error + account_name" where
  "get_scheduled_producer E d slot_num =
     (let current_aslot = current_absolute_slot d + ucast slot_num;
          index = (unat current_aslot mod blocks_per_round E) div producer_repititions E
      in if index < length (producers (active_producers d))
         then Inr (producer_name (producers (active_producers d) ! index))
         else Inl out_of_range)"

definition get_slot_time :: "env \<Rightarrow> database \<Rightarrow> 32 word \<Rightarrow> block_timestamp_type" where
  "get_slot_time E d slot_num =
     (if slot_num = 0 then 0
      else if head_block_number d = 0
      then to_block_timestamp E (to_time_point E (to_block_timestamp E (time d) + slot_num))
      else to_block_timestamp E (time d) + slot_num)"

definition get_slot_at_time :: "env \<Rightarrow> database \<Rightarrow> block_timestamp_type \<Rightarrow> 32 word" where
  "get_slot_at_time E d when =
     (let first_slot_time = get_slot_time E d 1
      in if when < first_slot_time then 0 else when - first_slot_time + 1)"

section \<open>Block header validation\<close>

text \<open>
  Modelled from the spec: \<^verbatim>\<open>calculate_transaction_merkle_root\<close> is declared with the
  block type, outside the sources; the spec makes it the Merkle root of the block's input
  transactions.
\<close>

definition calculate_transaction_merkle_root :: "env \<Rightarrow> signed_block \<Rightarrow> digest_type" where
  "calculate_transaction_merkle_root E b = merkle E (map (transaction_digest E) (input_transactions b))"

definition validate_block_header :: "env \<Rightarrow> database \<Rightarrow> 32 word \<Rightarrow> signed_block \<Rightarrow> error + producer_object" where
  "validate_block_header E d skip next_block =
     (if head_block_id d \<noteq> previous next_block then Inl block_validate_exception
      else if \<not> time d < to_time_point E (timestamp next_block) then Inl block_validate_exception
      else if unat (block_num next_block) mod blocks_per_round E \<noteq> 0 \<and> new_producers next_block \<noteq> None
      then Inl block_validate_exception
      else
        (case get_scheduled_producer E d (get_slot_at_time E d (timestamp next_block)) of
           Inl e \<Rightarrow> Inl e
         | Inr name \<Rightarrow>
             (case get_producer d name of
                Inl e \<Rightarrow> Inl e
              | Inr po \<Rightarrow>
                  if \<not> flag_set skip skip_producer_signature
                     \<and> \<not> validate_signee E next_block (signing_key po)
                  then Inl block_validate_exception
                  else if \<not> flag_set skip skip_producer_schedule_check
                          \<and> producer next_block \<noteq> owner po
                  then Inl block_validate_exception
                  else if calculate_transaction_merkle_root E next_block \<noteq> transaction_mroot next_block
                  then Inl assert_exception
                  else Inr po)))"

section \<open>Applying transactions\<close>

text \<open>
  Modelled from the spec: the trace types with \<^verbatim>\<open>append\<close>, \<^verbatim>\<open>calculate_root\<close> and
  \<^verbatim>\<open>calculate_action_merkle_root\<close> are declared outside the sources. A shard's root is
  the Merkle root over its action traces; the block's action root is the Merkle root of
  the shard roots.
\<close>

definition shard_append :: "shard_trace \<Rightarrow> transaction_trace \<Rightarrow> shard_trace" where
  "shard_append s t = s\<lparr>transaction_traces := transaction_traces s @ [t]\<rparr>"

definition calculate_root :: "env \<Rightarrow> shard_trace \<Rightarrow> shard_trace" where
  "calculate_root E s =
     s\<lparr>shard_root := merkle E (map (action_trace_digest E)
                                  (concat (map action_traces (transaction_traces s))))\<rparr>"

definition calculate_action_merkle_root :: "env \<Rightarrow> block_trace \<Rightarrow> digest_type" where
  "calculate_action_merkle_root E bt =
     merkle E (map shard_root (concat (map shard_traces (concat (map cycle_traces (region_traces bt))))))"

definition make_metadata ::
  "env \<Rightarrow> signed_transaction \<Rightarrow> chain_id_type \<Rightarrow> 16 word \<Rightarrow> 32 word \<Rightarrow> 32 word \<Rightarrow> transaction_metadata" where
  "make_metadata E trx cid r cy sh =
     \<lparr>meta_trx = trx, meta_id = transaction_digest E trx, meta_chain_id = cid,
      meta_region_id = r, meta_cycle_index = cy, meta_shard_index = sh,
      bandwidth_usage = transaction_pack_size E trx\<rparr>"

definition get_chain_id :: "env \<Rightarrow> chain_id_type" where
  "get_chain_id E = the_chain_id E"

fun exec_actions ::
  "env \<Rightarrow> signed_transaction \<Rightarrow> action list \<Rightarrow> transaction_trace \<Rightarrow> controller \<Rightarrow> transaction_trace outcome" where
  "exec_actions E trx [] result c = ret result c"
| "exec_actions E trx (a # as) result c =
     (case exec E (db c) trx a of
        Inl e \<Rightarrow> throw e c
      | Inr (d', ats, dts) \<Rightarrow>
          exec_actions E trx as
            (result\<lparr>action_traces := action_traces result @ ats,
                    deferred_transactions := deferred_transactions result @ dts\<rparr>)
            (c\<lparr>db := d'\<rparr>))"

definition stamp_traces :: "transaction_metadata \<Rightarrow> transaction_trace \<Rightarrow> transaction_trace" where
  "stamp_traces meta result =
     result\<lparr>action_traces :=
        map (\<lambda>at. at\<lparr>region_id := meta_region_id meta, cycle_index := meta_cycle_index meta\<rparr>)
            (action_traces result)\<rparr>"

definition authorizing_accounts :: "signed_transaction \<Rightarrow> account_name list" where
  "authorizing_accounts trx = sort (remdups (map actor (concat (map authorization (actions trx)))))"

fun charge_bandwidth :: "nat \<Rightarrow> time_point \<Rightarrow> account_name list \<Rightarrow> controller \<Rightarrow> unit outcome" where
  "charge_bandwidth trx_size head_time [] c = ret () c"
| "charge_bandwidth trx_size head_time (a # as) c =
     (case bandwidth_usage_index (db c) a of
        None \<Rightarrow> throw key_not_found c
      | Some bu \<Rightarrow>
          let c' = db_modify (\<lambda>d. d\<lparr>bandwidth_usage_index :=
                                       (bandwidth_usage_index d)(a \<mapsto> bu @ [(trx_size, head_time)])\<rparr>) c
          in (case staked_balance_index (db c') a of
                None \<Rightarrow> throw key_not_found c'
              | Some sb \<Rightarrow> charge_bandwidth trx_size head_time as c'))"

definition apply_transaction' :: "env \<Rightarrow> transaction_metadata \<Rightarrow> controller \<Rightarrow> transaction_trace outcome" where
  "apply_transaction' E meta =
     bnd (exec_actions E (meta_trx meta) (actions (meta_trx meta))
            \<lparr>trace_id = meta_id meta, action_traces = [], deferred_transactions = []\<rparr>)
       (\<lambda>result.
          bnd (\<lambda>c. charge_bandwidth
                      (bandwidth_usage meta + fixed_bandwidth_overhead_per_transaction E)
                      (head_block_time c) (authorizing_accounts (meta_trx meta)) c)
            (\<lambda>u. ret (stamp_traces meta result)))"

definition make_generated :: "env \<Rightarrow> deferred_transaction \<Rightarrow> generated_transaction_object" where
  "make_generated E dt =
     \<lparr>gto_trx_id = transaction_digest E (dt_trx dt), gto_sender = sender dt,
      gto_sender_id = sender_id dt, gto_expiration = expiration (dt_trx dt),
      gto_delay_until = execute_after dt, gto_packed_trx = pack_deferred E dt\<rparr>"

definition apply_cycle_trace' :: "env \<Rightarrow> cycle_trace \<Rightarrow> controller \<Rightarrow> controller" where
  "apply_cycle_trace' E res =
     db_modify (\<lambda>d. d\<lparr>generated_transaction_index :=
        generated_transaction_index d @
          map (make_generated E)
            (concat (map deferred_transactions (concat (map transaction_traces (shard_traces res)))))\<rparr>)"

section \<open>Finalizing a block\<close>

definition head_producer_schedule' :: "database \<Rightarrow> producer_schedule_type" where
  "head_producer_schedule' d =
     (if length (pending_active_producers d) \<noteq> 0 then snd (last (pending_active_producers d))
      else active_producers d)"

fun fill_schedule :: "database \<Rightarrow> account_name list \<Rightarrow> nat \<Rightarrow> producer_key list \<Rightarrow> error + producer_key list" where
  "fill_schedule d [] count ps = Inr ps"
| "fill_schedule d (n # ns) count ps =
     (if count < length ps then
        (case get_producer d n of
           Inl e \<Rightarrow> Inl e
         | Inr po \<Rightarrow>
             fill_schedule d ns (if signing_key po \<noteq> 0 then count + 1 else count)
               (ps[count := \<lparr>producer_name = n, block_signing_key = signing_key po\<rparr>]))
      else Inr ps)"

definition calculate_producer_schedule' :: "env \<Rightarrow> database \<Rightarrow> error + producer_schedule_type" where
  "calculate_producer_schedule' E d =
     (case fill_schedule d (producers_by_vote d) 0
             (replicate (producer_count E) \<lparr>producer_name = 0, block_signing_key = 0\<rparr>) of
        Inl e \<Rightarrow> Inl e
      | Inr ps \<Rightarrow>
          let hps = head_producer_schedule' d;
              sch = \<lparr>version = version hps, producers = ps\<rparr>
          in Inr (if hps \<noteq> sch then sch\<lparr>version := version sch + 1\<rparr> else sch))"

definition push_pending_schedule ::
  "32 word \<Rightarrow> producer_schedule_type \<Rightarrow> database \<Rightarrow> database" where
  "push_pending_schedule n sch d =
     (if length (pending_active_producers d) \<noteq> 0 \<and> fst (last (pending_active_producers d)) = n
      then d\<lparr>pending_active_producers := butlast (pending_active_producers d) @ [(n, sch)]\<rparr>
      else d\<lparr>pending_active_producers := pending_active_producers d @ [(n, sch)]\<rparr>)"

definition active_producers_authority :: "env \<Rightarrow> database \<Rightarrow> authority" where
  "active_producers_authority E d =
     \<lparr>threshold = producers_authority_threshold E, auth_keys = [],
      auth_accounts = map (\<lambda>pk. (\<lparr>actor = producer_name pk, permission = active_name E\<rparr>, 1))
                          (producers (active_producers d))\<rparr>"

definition set_producers_authority :: "env \<Rightarrow> controller \<Rightarrow> unit outcome" where
  "set_producers_authority E c =
     (if list_ex (\<lambda>p. perm_owner p = producers_account_name E \<and> perm_name p = active_name E)
           (permission_index (db c))
      then ret ()
             (db_modify (\<lambda>d. d\<lparr>permission_index :=
                map (\<lambda>p. if perm_owner p = producers_account_name E \<and> perm_name p = active_name E
                          then p\<lparr>auth := active_producers_authority E d\<rparr> else p)
                    (permission_index d)\<rparr>) c)
      else throw key_not_found c)"

definition update_global_properties :: "env \<Rightarrow> signed_block \<Rightarrow> controller \<Rightarrow> unit outcome" where
  "update_global_properties E b =
     (if is_start_of_round E (block_num b) then
        bnd (lift (calculate_producer_schedule' E))
          (\<lambda>sch.
             bnd (require (case new_producers b of None \<Rightarrow> True | Some np \<Rightarrow> sch = np) assert_exception)
               (\<lambda>u. bnd (\<lambda>c. require (\<not> (head_producer_schedule' (db c) \<noteq> sch \<and> new_producers b = None))
                                 assert_exception c)
                  (\<lambda>u. bnd (modify (db_modify (push_pending_schedule (block_num b) sch)))
                     (\<lambda>u. set_producers_authority E))))
      else ret ())"

fun count_missed :: "env \<Rightarrow> signed_block \<Rightarrow> 32 word list \<Rightarrow> controller \<Rightarrow> unit outcome" where
  "count_missed E b [] c = ret () c"
| "count_missed E b (i # is) c =
     (case get_scheduled_producer E (db c) (i + 1) of
        Inl e \<Rightarrow> throw e c
      | Inr name \<Rightarrow>
          (case get_producer (db c) name of
             Inl e \<Rightarrow> throw e c
           | Inr producer_missed \<Rightarrow>
               count_missed E b is
                 (if owner producer_missed \<noteq> producer b
                  then db_modify (\<lambda>d. d\<lparr>producer_index := (producer_index d)
                          (name \<mapsto> producer_missed\<lparr>total_missed := total_missed producer_missed + 1\<rparr>)\<rparr>) c
                  else c)))"

definition shift_slots :: "32 word \<Rightarrow> 64 word \<Rightarrow> 64 word" where
  "shift_slots missed_blocks filled =
     (if unat missed_blocks < 64
      then push_bit (unat missed_blocks) (push_bit 1 filled + 1)
      else 0)"

definition update_global_dynamic_data :: "env \<Rightarrow> signed_block \<Rightarrow> controller \<Rightarrow> unit outcome" where
  "update_global_dynamic_data E b =
     bnd (\<lambda>c. require (block_merkle E (block_merkle_root (db c)) = block_mroot b) assert_exception c)
       (\<lambda>u. bnd (\<lambda>c. ret (if head_block_num c = 0 then 1
                            else get_slot_at_time E (db c) (timestamp b)) c)
          (\<lambda>slots.
             bnd (require (slots \<noteq> 0) aborted)
               (\<lambda>u. let missed_blocks = slots - 1 in
                  bnd (count_missed E b (map of_nat [0 ..< unat missed_blocks]))
                    (\<lambda>u. bnd (modify (db_modify (\<lambda>d. d
                               \<lparr>head_block_number := block_num b,
                                head_block_id := block_id E b,
                                time := to_time_point E (timestamp b),
                                current_producer := producer b,
                                current_absolute_slot := current_absolute_slot d + ucast (missed_blocks + 1),
                                averge_block_size := averge_block_size d @ [(pack_size E b, timestamp b)],
                                recent_slots_filled := shift_slots missed_blocks (recent_slots_filled d),
                                block_merkle_root := block_merkle_root d @ [block_id E b]\<rparr>)))
                       (\<lambda>u. modify (\<lambda>c. c\<lparr>fork_db := fork_set_max_size (fork_db c)
                               (head_block_number (db c) - last_irreversible_block_num (db c) + 1)\<rparr>))))))"

definition update_signing_producer :: "env \<Rightarrow> producer_object \<Rightarrow> signed_block \<Rightarrow> controller \<Rightarrow> unit outcome" where
  "update_signing_producer E signing_producer new_block c =
     (let new_block_aslot = current_absolute_slot (db c)
                              + ucast (get_slot_at_time E (db c) (timestamp new_block))
      in (case producer_index (db c) (owner signing_producer) of
            None \<Rightarrow> throw key_not_found c
          | Some wit \<Rightarrow>
              ret () (db_modify (\<lambda>d. d\<lparr>producer_index := (producer_index d)
                        (owner signing_producer \<mapsto>
                           wit\<lparr>last_aslot := new_block_aslot,
                               last_confirmed_block_num := block_num new_block\<rparr>)\<rparr>) c)))"

definition create_block_summary :: "env \<Rightarrow> signed_block \<Rightarrow> controller \<Rightarrow> unit outcome" where
  "create_block_summary E next_block c =
     (let sid = (ucast (and (block_num next_block) 0xffff) :: 16 word)
      in (case block_summary_index (db c) sid of
            None \<Rightarrow> throw key_not_found c
          | Some p \<Rightarrow>
              ret () (db_modify (\<lambda>d. d\<lparr>block_summary_index :=
                        (block_summary_index d)(sid \<mapsto> block_id E next_block)\<rparr>) c)))"

definition clear_expired_transactions :: "controller \<Rightarrow> unit outcome" where
  "clear_expired_transactions = ret ()"

definition finalize_block' :: "env \<Rightarrow> block_trace \<Rightarrow> controller \<Rightarrow> unit outcome" where
  "finalize_block' E trace =
     (let b = trace_block trace in
      bnd (\<lambda>c. lift (\<lambda>d. validate_block_header E d (skip_flags c) b) c)
        (\<lambda>signing_producer.
           bnd (update_global_properties E b)
             (\<lambda>u. bnd (update_global_dynamic_data E b)
                (\<lambda>u. bnd (update_signing_producer E signing_producer b)
                   (\<lambda>u. bnd (update_last_irreversible_block E)
                      (\<lambda>u. bnd (create_block_summary E b)
                         (\<lambda>u. bnd clear_expired_transactions
                            (\<lambda>u. modify (\<lambda>c. c\<lparr>applied_signals := applied_signals c @ [trace],
                                                irreversible_signals :=
                                                  (if currently_replaying_blocks c
                                                   then irreversible_signals c @ [b]
                                                   else irreversible_signals c)\<rparr>)))))))))"

section \<open>Applying a block\<close>

fun regions_in_order :: "region_summary list \<Rightarrow> bool" where
  "regions_in_order [] = True"
| "regions_in_order [x] = True"
| "regions_in_order (x # y # zs) = (region x < region y \<and> regions_in_order (y # zs))"

definition find_input_transaction :: "env \<Rightarrow> signed_block \<Rightarrow> transaction_id_type \<Rightarrow> signed_transaction option" where
  "find_input_transaction E b i = find (\<lambda>t. transaction_digest E t = i) (rev (input_transactions b))"

fun apply_shard ::
  "env \<Rightarrow> signed_block \<Rightarrow> 16 word \<Rightarrow> 32 word \<Rightarrow> 32 word \<Rightarrow> transaction_receipt list \<Rightarrow> shard_trace
     \<Rightarrow> controller \<Rightarrow> shard_trace outcome" where
  "apply_shard E b r ci si [] s_trace = ret s_trace"
| "apply_shard E b r ci si (receipt # rs) s_trace =
     (if status receipt = executed then
        (case find_input_transaction E b (receipt_id receipt) of
           Some trx \<Rightarrow>
             bnd (apply_transaction' E (make_metadata E trx (get_chain_id E) r ci si))
               (\<lambda>tr. apply_shard E b r ci si rs (shard_append s_trace tr))
         | None \<Rightarrow> throw assert_exception)
      else apply_shard E b r ci si rs s_trace)"

fun apply_cycle ::
  "env \<Rightarrow> signed_block \<Rightarrow> 16 word \<Rightarrow> 32 word \<Rightarrow> 32 word \<Rightarrow> transaction_receipt list list \<Rightarrow> cycle_trace
     \<Rightarrow> controller \<Rightarrow> cycle_trace outcome" where
  "apply_cycle E b r ci si [] c_trace = ret c_trace"
| "apply_cycle E b r ci si (shard # shards) c_trace =
     bnd (apply_shard E b r ci si shard \<lparr>shard_root = 0, transaction_traces = []\<rparr>)
       (\<lambda>s_trace. apply_cycle E b r ci (si + 1) shards
                     (c_trace\<lparr>shard_traces := shard_traces c_trace @ [calculate_root E s_trace]\<rparr>))"

fun apply_region ::
  "env \<Rightarrow> signed_block \<Rightarrow> 16 word \<Rightarrow> 32 word \<Rightarrow> transaction_receipt list list list \<Rightarrow> region_trace
     \<Rightarrow> controller \<Rightarrow> region_trace outcome" where
  "apply_region E b r ci [] r_trace = ret r_trace"
| "apply_region E b r ci (cycle # cycles) r_trace =
     bnd (apply_cycle E b r ci 0 cycle \<lparr>shard_traces = []\<rparr>)
       (\<lambda>c_trace.
          bnd (modify (apply_cycle_trace' E c_trace))
            (\<lambda>u. apply_region E b r (ci + 1) cycles
                    (r_trace\<lparr>cycle_traces := cycle_traces r_trace @ [c_trace]\<rparr>)))"

fun apply_regions ::
  "env \<Rightarrow> signed_block \<Rightarrow> region_summary list \<Rightarrow> block_trace \<Rightarrow> controller \<Rightarrow> block_trace outcome" where
  "apply_regions E b [] bt = ret bt"
| "apply_regions E b (r # rs) bt =
     bnd (apply_region E b (region r) 0 (cycles_summary r) \<lparr>cycle_traces = []\<rparr>)
       (\<lambda>r_trace. apply_regions E b rs (bt\<lparr>region_traces := region_traces bt @ [r_trace]\<rparr>))"

definition apply_block'' :: "env \<Rightarrow> signed_block \<Rightarrow> controller \<Rightarrow> unit outcome" where
  "apply_block'' E next_block =
     bnd (\<lambda>c. lift (\<lambda>d. validate_block_header E d (skip_flags c) next_block) c)
       (\<lambda>signing_producer.
          bnd (require (regions_in_order (regions next_block)) assert_exception)
            (\<lambda>u. bnd (apply_regions E next_block (regions next_block)
                         \<lparr>trace_block = next_block, region_traces = []\<rparr>)
               (\<lambda>next_block_trace.
                  bnd (require (action_mroot next_block
                                  = calculate_action_merkle_root E next_block_trace) assert_exception)
                    (\<lambda>u. finalize_block' E next_block_trace))))"

text \<open>
  The checkpoints are an ordered map; \<^verbatim>\<open>rbegin()\<close> is its entry with the greatest key.
\<close>

definition checkpoints_rbegin :: "(block_num_type \<times> block_id_type) list \<Rightarrow> block_num_type \<times> block_id_type" where
  "checkpoints_rbegin cps = foldl (\<lambda>m x. if fst m \<le> fst x then x else m) (hd cps) (tl cps)"

definition apply_block' :: "env \<Rightarrow> signed_block \<Rightarrow> 32 word \<Rightarrow> controller \<Rightarrow> unit outcome" where
  "apply_block' E next_block skip c =
     (let n = block_num next_block in
      if length (checkpoints c) \<noteq> 0 \<and> snd (checkpoints_rbegin (checkpoints c)) \<noteq> null_block_id then
        (case map_of (checkpoints c) n of
           Some cp \<Rightarrow>
             if block_id E next_block \<noteq> cp then throw assert_exception c
             else with_applying_block
                    (with_skip_flags (if fst (checkpoints_rbegin (checkpoints c)) \<ge> n then - 1 else skip)
                       (apply_block'' E next_block)) c
         | None \<Rightarrow>
             with_applying_block
               (with_skip_flags (if fst (checkpoints_rbegin (checkpoints c)) \<ge> n then - 1 else skip)
                  (apply_block'' E next_block)) c)
      else with_applying_block (with_skip_flags skip (apply_block'' E next_block)) c)"

section \<open>Fork database operations\<close>

text \<open>
  Modelled from the spec: \<open>push_block\<close> inserts the block and makes it the head if it
  extends or overtakes the head, and returns the head; \<open>fetch_branch_from\<close> returns both
  branches tip-to-root, each ending in the child of the common ancestor, and fails with
  \<open>no_common_ancestor\<close> otherwise; \<open>remove\<close> drops an item; \<open>pop_block\<close> removes the
  current head and makes its parent the head; \<open>set_head\<close> sets the head.
\<close>

definition fork_push_block :: "env \<Rightarrow> fork_database \<Rightarrow> signed_block \<Rightarrow> fork_database \<times> signed_block" where
  "fork_push_block E f b =
     (let f' = (if fork_fetch_block E f (block_id E b) = None
                then f\<lparr>fork_index := fork_index f @ [b]\<rparr> else f)
      in case fork_head f of
           None \<Rightarrow> (f'\<lparr>fork_head := Some b\<rparr>, b)
         | Some h \<Rightarrow> if block_num b > block_num h then (f'\<lparr>fork_head := Some b\<rparr>, b) else (f', h))"

function fork_chain :: "env \<Rightarrow> fork_database \<Rightarrow> signed_block \<Rightarrow> signed_block list" where
  "fork_chain E f b =
     b # (if block_num b = 0 then []
          else (case fork_prev E f b of None \<Rightarrow> [] | Some p \<Rightarrow> fork_chain E f p))"
  by pat_completeness auto
termination
proof (relation "measure (\<lambda>(E, f, b). unat (block_num b))")
  show "wf (measure (\<lambda>(E, f, b). unat (block_num b)))"
    by simp
next
  fix E :: env and f :: fork_database and b p :: signed_block
  assume nz: "block_num b \<noteq> 0" and pr: "fork_prev E f b = Some p"
  from pr have "block_id E p = previous b"
    unfolding fork_prev_def fork_fetch_block_def by (auto simp: find_Some_iff)
  then have "fst (block_id E p) = fst (previous b)"
    by simp
  then have "block_num p = block_num b - 1"
    by (simp add: block_id_def block_num_def)
  then have "unat (block_num p) < unat (block_num b)"
    using nz by (simp add: unat_minus_one unat_gt_0)
  then show "((E, f, p), (E, f, b)) \<in> measure (\<lambda>(E, f, b). unat (block_num b))"
    by simp
qed

fun meet :: "signed_block list \<Rightarrow> signed_block list \<Rightarrow> (signed_block list \<times> signed_block list) option" where
  "meet (x # xs) (y # ys) =
     (if previous x = previous y then Some ([x], [y])
      else (case meet xs ys of None \<Rightarrow> None | Some (p, q) \<Rightarrow> Some (x # p, y # q)))"
| "meet xs ys = None"

definition fetch_branch_from ::
  "env \<Rightarrow> fork_database \<Rightarrow> block_id_type \<Rightarrow> block_id_type \<Rightarrow> error + (signed_block list \<times> signed_block list)" where
  "fetch_branch_from E f first second =
     (case fork_fetch_block E f first of
        None \<Rightarrow> Inl no_common_ancestor
      | Some a \<Rightarrow>
          (case fork_fetch_block E f second of
             None \<Rightarrow> Inl no_common_ancestor
           | Some b \<Rightarrow>
               let la = fork_chain E f a; lb = fork_chain E f b;
                   ka = unat (block_num a) - unat (block_num b);
                   kb = unat (block_num b) - unat (block_num a)
               in (case meet (drop ka la) (drop kb lb) of
                     None \<Rightarrow> Inl no_common_ancestor
                   | Some (p, q) \<Rightarrow> Inr (take ka la @ p, take kb lb @ q))))"

definition fork_remove :: "env \<Rightarrow> fork_database \<Rightarrow> block_id_type \<Rightarrow> fork_database" where
  "fork_remove E f i = f\<lparr>fork_index := filter (\<lambda>b. block_id E b \<noteq> i) (fork_index f)\<rparr>"

definition fork_set_head :: "fork_database \<Rightarrow> signed_block \<Rightarrow> fork_database" where
  "fork_set_head f b = f\<lparr>fork_head := Some b\<rparr>"

definition fork_pop_block :: "env \<Rightarrow> fork_database \<Rightarrow> error + fork_database" where
  "fork_pop_block E f =
     (case fork_head f of
        None \<Rightarrow> Inl assert_exception
      | Some h \<Rightarrow> Inr (f\<lparr>fork_index := filter (\<lambda>b. block_id E b \<noteq> block_id E h) (fork_index f),
                         fork_head := fork_prev E f h\<rparr>))"

section \<open>Popping and pushing blocks\<close>

definition reset_pending_block_session :: "controller \<Rightarrow> controller" where
  "reset_pending_block_session c =
     (if pending_block_session c then (db_undo c)\<lparr>pending_block_session := False\<rparr> else c)"

definition pop_block :: "env \<Rightarrow> controller \<Rightarrow> unit outcome" where
  "pop_block E c =
     (let c1 = reset_pending_block_session c;
          head_id = get_head_block_id c1
      in (case fetch_block_by_id E c1 head_id of
            None \<Rightarrow> throw pop_empty_chain c1
          | Some head_block \<Rightarrow>
              (case fork_pop_block E (fork_db c1) of
                 Inl e \<Rightarrow> throw e c1
               | Inr f \<Rightarrow> ret () (db_undo (c1\<lparr>fork_db := f\<rparr>)))))"

definition clear_pending :: "controller \<Rightarrow> controller" where
  "clear_pending c =
     reset_pending_block_session (c\<lparr>pending_block_trace := None, pending_block := None\<rparr>)"

text \<open>
  Modelled from the spec: the helper \<^verbatim>\<open>without_pending_transactions\<close> is declared outside
  the sources and the spec does not describe it beyond its name: the operation runs with
  the pending block cleared. What it does with the cleared transactions afterwards is
  not modelled; the results below start from a controller without a pending block.
\<close>

definition without_pending_transactions :: "(controller \<Rightarrow> 'a outcome) \<Rightarrow> controller \<Rightarrow> 'a outcome" where
  "without_pending_transactions f c = f (clear_pending c)"

text \<open>
  \<^verbatim>\<open>while (head_block_id() != target) pop_block();\<close>
\<close>

partial_function (option) pop_until :: "env \<Rightarrow> block_id_type \<Rightarrow> controller \<Rightarrow> ((error + unit) \<times> controller) option" where
  [code]: "pop_until E target c =
     (if get_head_block_id c \<noteq> target then
        (case pop_block E c of
           None \<Rightarrow> None
         | Some (Inl e, c') \<Rightarrow> Some (Inl e, c')
         | Some (Inr u, c') \<Rightarrow> pop_until E target c')
      else Some (Inr (), c))"

text \<open>
  \<^verbatim>\<open>{ auto session = _db.start_undo_session(true); _apply_block(b, skip); session.push(); }\<close>:
  an exception leaves the scope and rolls the session back.
\<close>

definition apply_in_session :: "env \<Rightarrow> signed_block \<Rightarrow> 32 word \<Rightarrow> controller \<Rightarrow> unit outcome" where
  "apply_in_session E b skip c =
     (case apply_block' E b skip (start_undo_session c) of
        None \<Rightarrow> None
      | Some (Inl e, c') \<Rightarrow> Some (Inl e, if e = aborted then c' else db_undo c')
      | Some (Inr u, c') \<Rightarrow> Some (Inr (), c'))"

fun restore_good_fork :: "env \<Rightarrow> 32 word \<Rightarrow> signed_block list \<Rightarrow> controller \<Rightarrow> unit outcome" where
  "restore_good_fork E skip [] = ret ()"
| "restore_good_fork E skip (b # bs) =
     bnd (apply_in_session E b skip) (\<lambda>u. restore_good_fork E skip bs)"

definition remove_rest :: "env \<Rightarrow> signed_block list \<Rightarrow> fork_database \<Rightarrow> fork_database" where
  "remove_rest E bs f = foldl (\<lambda>g x. fork_remove E g (block_id E x)) f bs"

fun switch_forks ::
  "env \<Rightarrow> 32 word \<Rightarrow> signed_block list \<Rightarrow> signed_block list \<Rightarrow> controller \<Rightarrow> bool outcome" where
  "switch_forks E skip second [] c = ret True c"
| "switch_forks E skip second (b # rest) c =
     (case apply_in_session E b skip c of
        None \<Rightarrow> None
      | Some (Inr u, c') \<Rightarrow> switch_forks E skip second rest c'
      | Some (Inl e, c') \<Rightarrow>
          if e = aborted then Some (Inl e, c')
          else
            bnd (pop_until E (previous (last second)))
              (\<lambda>u. bnd (restore_good_fork E skip (rev second)) (\<lambda>u. throw e))
              (c'\<lparr>fork_db := fork_set_head (remove_rest E (b # rest) (fork_db c')) (hd second)\<rparr>))"

definition push_new_block :: "env \<Rightarrow> signed_block \<Rightarrow> 32 word \<Rightarrow> controller \<Rightarrow> bool outcome" where
  "push_new_block E new_block skip c =
     (case apply_in_session E new_block skip c of
        None \<Rightarrow> None
      | Some (Inl e, c') \<Rightarrow>
          Some (Inl e, if e = aborted then c'
                       else c'\<lparr>fork_db := fork_remove E (fork_db c') (block_id E new_block)\<rparr>)
      | Some (Inr u, c') \<Rightarrow> Some (Inr False, c'))"

definition push_block' :: "env \<Rightarrow> signed_block \<Rightarrow> controller \<Rightarrow> bool outcome" where
  "push_block' E new_block c =
     (let skip = skip_flags c in
      if \<not> flag_set skip skip_fork_db then
        (case fork_push_block E (fork_db c) new_block of
           (f, new_head) \<Rightarrow>
             let c0 = c\<lparr>fork_db := f\<rparr> in
             if previous new_head \<noteq> get_head_block_id c0 then
               (if block_num new_head > head_block_num c0 then
                  (case fetch_branch_from E (fork_db c0) (block_id E new_head) (get_head_block_id c0) of
                     Inl e \<Rightarrow> throw e c0
                   | Inr (first, second) \<Rightarrow>
                       if second = [] then throw out_of_range c0
                       else bnd (pop_until E (previous (last second)))
                              (\<lambda>u. switch_forks E skip second (rev first)) c0)
                else ret False c0)
             else push_new_block E new_block skip c0)
      else push_new_block E new_block skip c)"

text \<open>The public operation is declared \<^verbatim>\<open>void\<close>: the value of \<^verbatim>\<open>_push_block\<close> is dropped.\<close>

definition push_block :: "env \<Rightarrow> signed_block \<Rightarrow> 32 word \<Rightarrow> controller \<Rightarrow> unit outcome" where
  "push_block E new_block skip =
     with_skip_flags skip
       (without_pending_transactions (bnd (push_block' E new_block) (\<lambda>switched. ret ())))"

section \<open>Transaction validation and authorization\<close>

definition require_account :: "database \<Rightarrow> account_name \<Rightarrow> error + unit" where
  "require_account d n = (if n \<in> set (account_index d) then Inr () else Inl assert_exception)"

definition require_scope :: "env \<Rightarrow> database \<Rightarrow> scope_name \<Rightarrow> error + unit" where
  "require_scope E d s =
     (if s = eosio_all_scope E \<or> s = eosio_auth_scope E then Inr () else require_account d s)"

fun check_all :: "('a \<Rightarrow> error + unit) \<Rightarrow> 'a list \<Rightarrow> error + unit" where
  "check_all f [] = Inr ()"
| "check_all f (x # xs) = (case f x of Inl e \<Rightarrow> Inl e | Inr u \<Rightarrow> check_all f xs)"

definition validate_referenced_accounts :: "env \<Rightarrow> database \<Rightarrow> signed_transaction \<Rightarrow> error + unit" where
  "validate_referenced_accounts E d trx =
     (case check_all (require_scope E d) (read_scope trx) of
        Inl e \<Rightarrow> Inl e
      | Inr u \<Rightarrow>
          (case check_all (require_scope E d) (write_scope trx) of
             Inl e \<Rightarrow> Inl e
           | Inr u \<Rightarrow>
               check_all (\<lambda>a. case require_account d (act_scope a) of
                                 Inl e \<Rightarrow> Inl e
                               | Inr u \<Rightarrow> check_all (\<lambda>au. require_account d (actor au)) (authorization a))
                         (actions trx)))"

definition should_check_for_duplicate_transactions :: "controller \<Rightarrow> bool" where
  "should_check_for_duplicate_transactions c = (\<not> flag_set (skip_flags c) skip_transaction_dupe_check)"

definition validate_uniqueness :: "env \<Rightarrow> signed_transaction \<Rightarrow> controller \<Rightarrow> unit outcome" where
  "validate_uniqueness E trx c =
     (if \<not> should_check_for_duplicate_transactions c then ret () c
      else if list_ex (\<lambda>t. trx_id t = transaction_digest E trx) (transaction_index (db c))
      then throw tx_duplicate c
      else ret () c)"

definition record_transaction :: "env \<Rightarrow> signed_transaction \<Rightarrow> controller \<Rightarrow> controller" where
  "record_transaction E trx =
     db_modify (\<lambda>d. d\<lparr>transaction_index := transaction_index d @
        [\<lparr>trx_id = transaction_digest E trx, trx_expiration = expiration trx\<rparr>]\<rparr>)"

definition is_known_transaction :: "controller \<Rightarrow> transaction_id_type \<Rightarrow> bool" where
  "is_known_transaction c i = list_ex (\<lambda>t. trx_id t = i) (transaction_index (db c))"

definition get_permission :: "database \<Rightarrow> permission_level \<Rightarrow> error + permission_object" where
  "get_permission d level =
     (case find (\<lambda>p. perm_owner p = actor level \<and> perm_name p = permission level) (permission_index d) of
        None \<Rightarrow> Inl key_not_found
      | Some p \<Rightarrow> Inr p)"

definition lookup_minimum_permission ::
  "env \<Rightarrow> database \<Rightarrow> account_name \<Rightarrow> account_name \<Rightarrow> action_name \<Rightarrow> error + permission_object" where
  "lookup_minimum_permission E d authorizer_account scope action_nm =
     (let link = (case permission_link_index d (authorizer_account, scope, action_nm) of
                    Some l \<Rightarrow> Some l
                  | None \<Rightarrow> permission_link_index d (authorizer_account, scope, 0))
      in get_permission d
           \<lparr>actor = authorizer_account,
            permission = (case link of None \<Rightarrow> active_name E | Some l \<Rightarrow> l)\<rparr>)"

text \<open>
  Modelled from the spec: \<^verbatim>\<open>permission_object::satisfies\<close> is declared outside the
  sources. A permission satisfies another of the same account when it is that permission
  or one of its ancestors in the account's permission tree.
\<close>

fun satisfies_within :: "nat \<Rightarrow> database \<Rightarrow> permission_object \<Rightarrow> permission_object \<Rightarrow> bool" where
  "satisfies_within 0 d p q = False"
| "satisfies_within (Suc n) d p q =
     (if perm_owner p \<noteq> perm_owner q then False
      else if perm_name p = perm_name q then True
      else (case perm_parent q of
              None \<Rightarrow> False
            | Some (ow, nm) \<Rightarrow>
                (case get_permission d \<lparr>actor = ow, permission = nm\<rparr> of
                   Inl e \<Rightarrow> False
                 | Inr q' \<Rightarrow> satisfies_within n d p q')))"

definition satisfies :: "database \<Rightarrow> permission_object \<Rightarrow> permission_object \<Rightarrow> bool" where
  "satisfies d p q = satisfies_within (Suc (length (permission_index d))) d p q"

text \<open>
  Modelled from the spec: the authority checker is declared outside the sources. With a
  permission lookup, a recursion depth, the provided keys and the provided accounts,
  \<open>satisfied level\<close> adds the weights of the provided keys present in the authority and
  the weights of the account entries that are provided or themselves satisfied one level
  deeper, and compares the sum with the threshold; recursion below depth 0 is
  unsatisfied. The keys of satisfied authorities are recorded as used.
\<close>

fun account_weight ::
  "(permission_level \<Rightarrow> error + bool \<times> public_key_type list) \<Rightarrow> account_name list
     \<Rightarrow> (permission_level \<times> 16 word) list \<Rightarrow> error + nat \<times> public_key_type list" where
  "account_weight sub accts [] = Inr (0, [])"
| "account_weight sub accts ((lvl, w) # rest) =
     (if actor lvl \<in> set accts then
        (case account_weight sub accts rest of
           Inl e \<Rightarrow> Inl e
         | Inr (tot, used) \<Rightarrow> Inr (unat w + tot, used))
      else
        (case sub lvl of
           Inl e \<Rightarrow> Inl e
         | Inr (ok, used1) \<Rightarrow>
             (case account_weight sub accts rest of
                Inl e \<Rightarrow> Inl e
              | Inr (tot, used) \<Rightarrow> Inr ((if ok then unat w else 0) + tot, (if ok then used1 else []) @ used))))"

fun satisfied_within ::
  "nat \<Rightarrow> database \<Rightarrow> public_key_type list \<Rightarrow> account_name list \<Rightarrow> permission_level
     \<Rightarrow> error + bool \<times> public_key_type list" where
  "satisfied_within 0 d keys accts level = Inr (False, [])"
| "satisfied_within (Suc n) d keys accts level =
     (case get_permission d level of
        Inl e \<Rightarrow> Inl e
      | Inr p \<Rightarrow>
          let present = filter (\<lambda>kw. fst kw \<in> set keys) (auth_keys (auth p));
              key_weight = sum_list (map (\<lambda>kw. unat (snd kw)) present)
          in (case account_weight (satisfied_within n d keys accts) accts (auth_accounts (auth p)) of
                Inl e \<Rightarrow> Inl e
              | Inr (tot, used) \<Rightarrow>
                  if unat (threshold (auth p)) \<le> key_weight + tot
                  then Inr (True, map fst present @ used)
                  else Inr (False, [])))"

definition checker_satisfied ::
  "database \<Rightarrow> public_key_type list \<Rightarrow> account_name list \<Rightarrow> permission_level
     \<Rightarrow> error + bool \<times> public_key_type list" where
  "checker_satisfied d keys accts level =
     satisfied_within (Suc (max_authority_depth d)) d keys accts level"

definition all_keys_used :: "public_key_type list \<Rightarrow> public_key_type list \<Rightarrow> bool" where
  "all_keys_used keys used = list_all (\<lambda>k. k \<in> set used) keys"

fun check_declared ::
  "env \<Rightarrow> database \<Rightarrow> 32 word \<Rightarrow> public_key_type list \<Rightarrow> account_name list \<Rightarrow> action
     \<Rightarrow> permission_level list \<Rightarrow> public_key_type list \<Rightarrow> error + public_key_type list" where
  "check_declared E d skip keys accts a [] used = Inr used"
| "check_declared E d skip keys accts a (declared_auth # rest) used =
     (case lookup_minimum_permission E d (actor declared_auth) (act_scope a) (act_name a) of
        Inl e \<Rightarrow> Inl e
      | Inr min_permission \<Rightarrow>
          (case (if \<not> flag_set skip skip_authority_check
                 then (case get_permission d declared_auth of
                         Inl e \<Rightarrow> Inl e
                       | Inr p \<Rightarrow> if satisfies d p min_permission then Inr ()
                                  else Inl tx_irrelevant_auth)
                 else Inr ()) of
             Inl e \<Rightarrow> Inl e
           | Inr u \<Rightarrow>
               if \<not> flag_set skip skip_transaction_signatures then
                 (case checker_satisfied d keys accts declared_auth of
                    Inl e \<Rightarrow> Inl e
                  | Inr (ok, used1) \<Rightarrow>
                      if ok then check_declared E d skip keys accts a rest (used @ used1)
                      else Inl tx_missing_sigs)
               else check_declared E d skip keys accts a rest used))"

fun check_actions ::
  "env \<Rightarrow> database \<Rightarrow> 32 word \<Rightarrow> public_key_type list \<Rightarrow> account_name list \<Rightarrow> action list
     \<Rightarrow> public_key_type list \<Rightarrow> error + public_key_type list" where
  "check_actions E d skip keys accts [] used = Inr used"
| "check_actions E d skip keys accts (a # as) used =
     (case check_declared E d skip keys accts a (authorization a) used of
        Inl e \<Rightarrow> Inl e
      | Inr used1 \<Rightarrow> check_actions E d skip keys accts as used1)"

definition check_authorization ::
  "env \<Rightarrow> database \<Rightarrow> 32 word \<Rightarrow> signed_transaction \<Rightarrow> public_key_type list \<Rightarrow> bool
     \<Rightarrow> account_name list \<Rightarrow> error + unit" where
  "check_authorization E d skip trx provided_keys allow_unused_signatures provided_accounts =
     (case check_actions E d skip provided_keys provided_accounts (actions trx) [] of
        Inl e \<Rightarrow> Inl e
      | Inr used \<Rightarrow>
          if \<not> allow_unused_signatures \<and> \<not> flag_set skip skip_transaction_signatures
             \<and> \<not> all_keys_used provided_keys used
          then Inl tx_irrelevant_sig
          else Inr ())"

text \<open>\<^verbatim>\<open>chain_id_type{}\<close> is the value-initialised chain id.\<close>

definition default_chain_id :: chain_id_type where
  "default_chain_id = 0"

definition check_transaction_authorization ::
  "env \<Rightarrow> database \<Rightarrow> 32 word \<Rightarrow> signed_transaction \<Rightarrow> bool \<Rightarrow> error + unit" where
  "check_transaction_authorization E d skip trx allow_unused_signatures =
     check_authorization E d skip trx (recover_keys E default_chain_id trx) allow_unused_signatures []"

section \<open>The pending block\<close>

definition default_block :: signed_block where
  "default_block =
     \<lparr>previous = null_block_id, timestamp = 0, producer = 0, transaction_mroot = 0,
      action_mroot = 0, block_mroot = 0, new_producers = None, producer_signature = 0,
      regions = [], input_transactions = []\<rparr>"

definition resize :: "nat \<Rightarrow> 'a \<Rightarrow> 'a list \<Rightarrow> 'a list" where
  "resize n x xs = take n xs @ replicate (n - length xs) x"

definition map_last :: "('a \<Rightarrow> 'a) \<Rightarrow> 'a list \<Rightarrow> 'a list" where
  "map_last f xs = (if xs = [] then [] else butlast xs @ [f (last xs)])"

text \<open>
  Dereferencing an empty optional, and \<^verbatim>\<open>back()\<close> of an empty vector, are undefined in
  the source; the model fails with \<open>out_of_range\<close> there.
\<close>

definition start_pending_shard' :: "controller \<Rightarrow> unit outcome" where
  "start_pending_shard' c =
     (case pending_block c of
        None \<Rightarrow> throw out_of_range c
      | Some pb \<Rightarrow>
          if regions pb = [] then throw out_of_range c
          else if cycles_summary (last (regions pb)) = [] then throw out_of_range c
          else
            (case pending_cycle_trace c of
               None \<Rightarrow> throw out_of_range c
             | Some ct \<Rightarrow>
                 ret () (c\<lparr>pending_block := Some (pb\<lparr>regions :=
                              map_last (\<lambda>r. r\<lparr>cycles_summary :=
                                 map_last (\<lambda>bcycle. bcycle @ [[]]) (cycles_summary r)\<rparr>) (regions pb)\<rparr>),
                           pending_cycle_trace := Some (ct\<lparr>shard_traces :=
                              shard_traces ct @ [\<lparr>shard_root = 0, transaction_traces = []\<rparr>]\<rparr>)\<rparr>)))"

definition start_pending_cycle' :: "controller \<Rightarrow> unit outcome" where
  "start_pending_cycle' c =
     (case pending_block c of
        None \<Rightarrow> throw out_of_range c
      | Some pb \<Rightarrow>
          if regions pb = [] then throw out_of_range c
          else
            start_pending_shard'
              (c\<lparr>pending_block := Some (pb\<lparr>regions :=
                     map_last (\<lambda>r. r\<lparr>cycles_summary :=
                        resize (length (cycles_summary (hd (regions pb))) + 1) [] (cycles_summary r)\<rparr>)
                       (regions pb)\<rparr>),
                 pending_cycle := \<lparr>cycle_read_scopes = [], cycle_write_scopes = []\<rparr>,
                 pending_cycle_trace := Some \<lparr>shard_traces = []\<rparr>\<rparr>))"

definition start_pending_block' :: "controller \<Rightarrow> unit outcome" where
  "start_pending_block' c =
     (if pending_block c \<noteq> None then throw assert_exception c
      else
        start_pending_cycle'
          ((start_undo_session c)
             \<lparr>pending_block := Some (default_block\<lparr>regions := [\<lparr>region = 0, cycles_summary = []\<rparr>]\<rparr>),
              pending_block_trace := Some \<lparr>trace_block = default_block,
                                          region_traces = [\<lparr>cycle_traces = []\<rparr>]\<rparr>,
              pending_block_session := True\<rparr>))"

definition finalize_pending_cycle' :: "env \<Rightarrow> controller \<Rightarrow> unit outcome" where
  "finalize_pending_cycle' E c =
     (case pending_cycle_trace c of
        None \<Rightarrow> throw out_of_range c
      | Some ct \<Rightarrow>
          let ct' = ct\<lparr>shard_traces := map (calculate_root E) (shard_traces ct)\<rparr>;
              c1 = apply_cycle_trace' E ct' c
          in (case pending_block_trace c1 of
                None \<Rightarrow> throw out_of_range c1
              | Some bt \<Rightarrow>
                  if region_traces bt = [] then throw out_of_range c1
                  else ret () (c1\<lparr>pending_block_trace := Some (bt\<lparr>region_traces :=
                                     map_last (\<lambda>rt. rt\<lparr>cycle_traces := cycle_traces rt @ [ct']\<rparr>)
                                       (region_traces bt)\<rparr>),
                                  pending_cycle_trace := None\<rparr>)))"

section \<open>Pushing a transaction\<close>

definition schedule_trx :: "env \<Rightarrow> signed_transaction \<Rightarrow> controller \<Rightarrow> int outcome" where
  "schedule_trx E trx c =
     (case schedule E (pending_cycle c) trx of (shardnum, st) \<Rightarrow> ret shardnum (c\<lparr>pending_cycle := st\<rparr>))"

definition pending_position :: "int \<Rightarrow> controller \<Rightarrow> (16 word \<times> 32 word) outcome" where
  "pending_position shardnum c =
     (case pending_block c of
        None \<Rightarrow> throw out_of_range c
      | Some pb \<Rightarrow>
          if regions pb = [] then throw out_of_range c
          else ret (region (last (regions pb)),
                    of_nat (length (cycles_summary (last (regions pb)))) - 1
                      + (if shardnum = - 1 then 1 else 0)) c)"

definition shard_beyond_cycle :: "int \<Rightarrow> controller \<Rightarrow> bool outcome" where
  "shard_beyond_cycle shardnum c =
     (case pending_block c of
        None \<Rightarrow> throw out_of_range c
      | Some pb \<Rightarrow>
          if regions pb = [] then throw out_of_range c
          else if cycles_summary (last (regions pb)) = [] then throw out_of_range c
          else ret (shardnum < 0 \<or> length (last (cycles_summary (last (regions pb)))) \<le> nat shardnum) c)"

definition place_receipt ::
  "env \<Rightarrow> signed_transaction \<Rightarrow> int \<Rightarrow> transaction_trace \<Rightarrow> controller \<Rightarrow> unit outcome" where
  "place_receipt E trx shardnum result c =
     (case pending_block c of
        None \<Rightarrow> throw out_of_range c
      | Some pb \<Rightarrow>
          if regions pb = [] then throw out_of_range c
          else if cycles_summary (last (regions pb)) = [] then throw out_of_range c
          else if shardnum < 0 \<or> length (last (cycles_summary (last (regions pb)))) \<le> nat shardnum
          then throw out_of_range c
          else
            (let pb1 = pb\<lparr>regions := map_last (\<lambda>r. r\<lparr>cycles_summary :=
                          map_last (\<lambda>bcycle. bcycle[nat shardnum := bcycle ! nat shardnum @
                                       [\<lparr>status = executed, receipt_id = transaction_digest E trx\<rparr>]])
                            (cycles_summary r)\<rparr>) (regions pb)\<rparr>;
                 c1 = c\<lparr>pending_block := Some pb1\<rparr>
             in (case pending_cycle_trace c1 of
                   None \<Rightarrow> throw out_of_range c1
                 | Some ct \<Rightarrow>
                     if length (shard_traces ct) \<le> nat shardnum then throw out_of_range c1
                     else ret () (c1\<lparr>pending_cycle_trace := Some (ct\<lparr>shard_traces :=
                                       (shard_traces ct)[nat shardnum :=
                                          shard_append (shard_traces ct ! nat shardnum) result]\<rparr>),
                                     pending_block := Some (pb1\<lparr>input_transactions :=
                                       input_transactions pb1 @ [trx]\<rparr>)\<rparr>))))"

definition push_transaction_body :: "env \<Rightarrow> signed_transaction \<Rightarrow> controller \<Rightarrow> transaction_trace outcome" where
  "push_transaction_body E trx =
     bnd (lift (\<lambda>d. validate_referenced_accounts E d trx))
       (\<lambda>u. bnd (\<lambda>c. lift (\<lambda>d. check_transaction_authorization E d (skip_flags c) trx False) c)
          (\<lambda>u. bnd (schedule_trx E trx)
             (\<lambda>shardnum. bnd (pending_position shardnum)
                (\<lambda>pos. bnd (apply_transaction' E
                               (make_metadata E trx (get_chain_id E) (fst pos) (snd pos) 0))
                   (\<lambda>result.
                      bnd (if shardnum = - 1
                           then bnd (finalize_pending_cycle' E)
                                  (\<lambda>u. bnd start_pending_cycle' (\<lambda>u. schedule_trx E trx))
                           else ret shardnum)
                        (\<lambda>shardnum.
                           bnd (shard_beyond_cycle shardnum)
                             (\<lambda>beyond. bnd (if beyond then start_pending_shard' else ret ())
                                (\<lambda>u. bnd (place_receipt E trx shardnum result)
                                   (\<lambda>u. bnd (modify db_squash)
                                      (\<lambda>u. bnd (modify (\<lambda>c. c\<lparr>pending_transaction_signals :=
                                                    pending_transaction_signals c @ [trx]\<rparr>))
                                         (\<lambda>u. ret result)))))))))))"

definition in_temp_session :: "(controller \<Rightarrow> 'a outcome) \<Rightarrow> controller \<Rightarrow> 'a outcome" where
  "in_temp_session m c =
     (case m (start_undo_session c) of
        None \<Rightarrow> None
      | Some (Inl e, c') \<Rightarrow> Some (Inl e, if e = aborted then c' else db_undo c')
      | Some (Inr x, c') \<Rightarrow> Some (Inr x, c'))"

definition push_transaction' :: "env \<Rightarrow> signed_transaction \<Rightarrow> controller \<Rightarrow> transaction_trace outcome" where
  "push_transaction' E trx =
     bnd (\<lambda>c. if pending_block c = None then start_pending_block' c else ret () c)
       (\<lambda>u. in_temp_session (push_transaction_body E trx))"

definition push_transaction :: "env \<Rightarrow> signed_transaction \<Rightarrow> 32 word \<Rightarrow> controller \<Rightarrow> transaction_trace outcome" where
  "push_transaction E trx skip = with_skip_flags skip (push_transaction' E trx)"

section \<open>Generating a block\<close>

definition fill_pending_header :: "env \<Rightarrow> block_timestamp_type \<Rightarrow> producer_object \<Rightarrow> controller \<Rightarrow> unit outcome" where
  "fill_pending_header E when producer_obj c =
     (case pending_block c of
        None \<Rightarrow> throw out_of_range c
      | Some pb \<Rightarrow>
          (case pending_block_trace c of
             None \<Rightarrow> throw out_of_range c
           | Some bt \<Rightarrow>
               let pb1 = pb\<lparr>timestamp := when, producer := owner producer_obj,
                            previous := get_head_block_id c,
                            block_mroot := block_merkle E (block_merkle_root (db c))\<rparr>;
                   pb2 = pb1\<lparr>transaction_mroot := calculate_transaction_merkle_root E pb1,
                             action_mroot := calculate_action_merkle_root E bt\<rparr>
               in if is_start_of_round E (block_num pb2) then
                    (case calculate_producer_schedule' E (db c) of
                       Inl e \<Rightarrow> throw e (c\<lparr>pending_block := Some pb2\<rparr>)
                     | Inr latest \<Rightarrow>
                         ret () (c\<lparr>pending_block := Some
                                   (if latest \<noteq> head_producer_schedule' (db c)
                                    then pb2\<lparr>new_producers := Some latest\<rparr> else pb2)\<rparr>))
                  else ret () (c\<lparr>pending_block := Some pb2\<rparr>)))"

definition sign_pending :: "env \<Rightarrow> nat \<Rightarrow> controller \<Rightarrow> unit outcome" where
  "sign_pending E key c =
     (if \<not> flag_set (skip_flags c) skip_producer_signature then
        (case pending_block c of
           None \<Rightarrow> throw out_of_range c
         | Some pb \<Rightarrow> ret () (c\<lparr>pending_block := Some (pb\<lparr>producer_signature := sign_block E pb key\<rparr>)\<rparr>))
      else ret () c)"

text \<open>The pending trace refers to the pending block, so finalizing sees the filled header.\<close>

definition finalize_pending_block :: "env \<Rightarrow> controller \<Rightarrow> unit outcome" where
  "finalize_pending_block E c =
     (case pending_block c of
        None \<Rightarrow> throw out_of_range c
      | Some pb \<Rightarrow>
          (case pending_block_trace c of
             None \<Rightarrow> throw out_of_range c
           | Some bt \<Rightarrow> finalize_block' E (bt\<lparr>trace_block := pb\<rparr>) c))"

definition take_pending_block :: "controller \<Rightarrow> signed_block outcome" where
  "take_pending_block c =
     (if \<not> pending_block_session c then throw out_of_range c
      else (case pending_block c of
              None \<Rightarrow> throw out_of_range c
            | Some pb \<Rightarrow>
                ret pb (c\<lparr>pending_block_trace := None, pending_block := None,
                          pending_block_session := False\<rparr>)))"

definition generate_block' ::
  "env \<Rightarrow> block_timestamp_type \<Rightarrow> account_name \<Rightarrow> nat \<Rightarrow> controller \<Rightarrow> signed_block outcome" where
  "generate_block' E when producer_nm block_signing_private_key =
     bnd (\<lambda>c. ret (get_slot_at_time E (db c) when) c)
       (\<lambda>slot_num. bnd (require (slot_num > 0) assert_exception)
          (\<lambda>u. bnd (lift (\<lambda>d. get_scheduled_producer E d slot_num))
             (\<lambda>scheduled_producer. bnd (require (scheduled_producer = producer_nm) assert_exception)
                (\<lambda>u. bnd (lift (\<lambda>d. get_producer d scheduled_producer))
                   (\<lambda>producer_obj.
                      bnd (\<lambda>c. if pending_block c = None then start_pending_block' c else ret () c)
                        (\<lambda>u. bnd (finalize_pending_cycle' E)
                           (\<lambda>u. bnd (\<lambda>c. require (flag_set (skip_flags c) skip_producer_signature
                                                   \<or> signing_key producer_obj = get_public_key E block_signing_private_key)
                                           assert_exception c)
                              (\<lambda>u. bnd (fill_pending_header E when producer_obj)
                                 (\<lambda>u. bnd (sign_pending E block_signing_private_key)
                                    (\<lambda>u. bnd (finalize_pending_block E)
                                       (\<lambda>u. bnd take_pending_block
                                          (\<lambda>result.
                                             bnd (modify (\<lambda>c. if \<not> flag_set (skip_flags c) skip_fork_db
                                                           then c\<lparr>fork_db := fst (fork_push_block E (fork_db c) result)\<rparr>
                                                           else c))
                                               (\<lambda>u. ret result)))))))))))))"

definition generate_block ::
  "env \<Rightarrow> block_timestamp_type \<Rightarrow> account_name \<Rightarrow> nat \<Rightarrow> 32 word \<Rightarrow> controller \<Rightarrow> signed_block outcome" where
  "generate_block E when producer_nm block_signing_private_key skip =
     with_skip_flags skip (generate_block' E when producer_nm block_signing_private_key)"

section \<open>Properties of traces and states\<close>




text \<open>
  The stored \<open>last_irreversible_block_num\<close> of a later state is not below that of an
  earlier one; and, stronger, the later undo history is an initial part of the earlier one.
\<close>

definition lib_le :: "controller \<Rightarrow> controller \<Rightarrow> bool" where
  "lib_le c c' = (last_irreversible_block_num (db c) \<le> last_irreversible_block_num (db c'))"

definition keeps_history :: "controller \<Rightarrow> controller \<Rightarrow> bool" where
  "keeps_history c c' = (lib_le c c' \<and> prefix (undo_stack c') (undo_stack c))"

definition mono :: "(controller \<Rightarrow> 'a outcome) \<Rightarrow> bool" where
  "mono m = (\<forall>c r c'. m c = Some (r, c') \<longrightarrow> lib_le c c')"

definition steady :: "(controller \<Rightarrow> 'a outcome) \<Rightarrow> bool" where
  "steady m = (\<forall>c r c'. m c = Some (r, c') \<longrightarrow> keeps_history c c')"

text \<open>Contract execution does not write the last irreversible block number.\<close>

definition exec_keeps_lib :: "env \<Rightarrow> bool" where
  "exec_keeps_lib E = (\<forall>d t a d' ats dts. exec E d t a = Inr (d', ats, dts) \<longrightarrow>
      last_irreversible_block_num d' = last_irreversible_block_num d)"

section \<open>Concrete chains used to run the model\<close>

text \<open>
  A three-producer chain with small constants: accounts 1, 2 and 3 sign with keys 101, 102
  and 103, a block's digest is its timestamp, a timestamp is a slot number, 66 percent of
  the producers make a block irreversible. A transaction signature is the signing key plus
  the chain id it was made for, and an action appends its name to the contract tables.
\<close>

definition ex_schedule :: "32 word \<Rightarrow> producer_schedule_type" where
  "ex_schedule v = \<lparr>version = v, producers =
     [\<lparr>producer_name = 1, block_signing_key = 101\<rparr>,
      \<lparr>producer_name = 2, block_signing_key = 102\<rparr>,
      \<lparr>producer_name = 3, block_signing_key = 103\<rparr>]\<rparr>"

definition ex_producer :: "account_name \<Rightarrow> 32 word \<Rightarrow> producer_object" where
  "ex_producer n conf = \<lparr>owner = n, signing_key = 100 + unat n, last_confirmed_block_num = conf,
                          last_aslot = 0, total_missed = 0\<rparr>"

definition ex_block :: "32 word \<Rightarrow> nat \<Rightarrow> 32 word \<Rightarrow> account_name \<Rightarrow> signed_block" where
  "ex_block pnum pdig ts pr =
     \<lparr>previous = (pnum, pdig), timestamp = ts, producer = pr, transaction_mroot = 0,
      action_mroot = 0, block_mroot = 0, new_producers = None, producer_signature = 100 + unat pr,
      regions = [], input_transactions = []\<rparr>"

definition ex_env :: "nat \<Rightarrow> nat \<Rightarrow> env" where
  "ex_env bpr reps =
     \<lparr>blocks_per_round = bpr, producer_repititions = reps, producer_count = 3,
      percent_100 = 100, irreversible_threshold_percent = 66,
      fixed_bandwidth_overhead_per_transaction = 0,
      active_name = 7, eosio_all_scope = 8, eosio_auth_scope = 9,
      producers_account_name = 10, producers_authority_threshold = 2, the_chain_id = 5,
      block_digest = (\<lambda>b. unat (timestamp b)),
      transaction_digest = (\<lambda>t. nat (expiration t)),
      merkle = sum_list,
      block_merkle = (\<lambda>ids. sum_list (map snd ids)),
      action_trace_digest = (\<lambda>t. unat (receiver t)),
      validate_signee = (\<lambda>b k. producer_signature b = k),
      sign_block = (\<lambda>b k. k),
      get_public_key = (\<lambda>k. k),
      recover_keys = (\<lambda>cid t. map (\<lambda>s. s - cid) (signatures t)),
      to_time_point = uint,
      to_block_timestamp = word_of_int,
      seconds = (\<lambda>n. 2 * n),
      exec = (\<lambda>d t a. Inr (d\<lparr>contract_tables := contract_tables d @ [unat (act_name a)]\<rparr>,
                          [\<lparr>receiver = act_scope a, act = a, console = [], region_id = 0,
                            cycle_index = 0\<rparr>], [])),
      schedule = (\<lambda>st t. (0, st)),
      pack_size = (\<lambda>b. 0),
      transaction_pack_size = (\<lambda>t. 0),
      pack_deferred = (\<lambda>d. [])\<rparr>"

definition producers_permission :: permission_object where
  "producers_permission =
     \<lparr>perm_owner = 10, perm_name = 7, perm_parent = None,
      auth = \<lparr>threshold = 2, auth_keys = [],
               auth_accounts = [(\<lparr>actor = 1, permission = 7\<rparr>, 1), (\<lparr>actor = 2, permission = 7\<rparr>, 1),
                                (\<lparr>actor = 3, permission = 7\<rparr>, 1)]\<rparr>\<rparr>"

definition ex_db :: database where
  "ex_db =
     \<lparr>head_block_number = 0, head_block_id = (0, 0), time = 0, current_producer = 0,
      current_absolute_slot = 0, recent_slots_filled = - 1, last_irreversible_block_num = 0,
      block_merkle_root = [], averge_block_size = [],
      active_producers = ex_schedule 0, pending_active_producers = [],
      max_authority_depth = 6, max_transaction_lifetime = 3600,
      producer_index = Map.empty, producers_by_vote = [1, 2, 3],
      block_summary_index = (\<lambda>i. Some (0, 0)),
      transaction_index = [], generated_transaction_index = [], account_index = [1, 2, 3],
      permission_index = [producers_permission], permission_link_index = Map.empty,
      bandwidth_usage_index = Map.empty, staked_balance_index = Map.empty,
      contract_tables = []\<rparr>"

definition ex_controller :: controller where
  "ex_controller =
     \<lparr>db = ex_db, undo_stack = [], revision = 0,
      fork_db = \<lparr>fork_index = [], fork_head = None, fork_max_size = 1024\<rparr>,
      block_log = [], pending_block = None, pending_block_trace = None,
      pending_block_session = False,
      pending_cycle = \<lparr>cycle_read_scopes = [], cycle_write_scopes = []\<rparr>,
      pending_cycle_trace = None, checkpoints = [], skip_flags = 0,
      currently_applying_block = False, currently_replaying_blocks = False,
      irreversible_signals = [], applied_signals = [], pending_transaction_signals = []\<rparr>"

text \<open>
  Rounds of three slots, one per producer. Producers 2 and 3 have been absent: block 1 (slot
  3) and blocks 4 and 5 (slots 9 and 12) are by producer 1, block 2 (slot 5) by producer 3,
  block 3 (slot 7) and block 6 (slot 13) by producer 2. \<open>hang_controller\<close> is the state in
  which block 6 is finalized: the schedules of round starts 3 and 6 are pending.
\<close>

definition hang_slot :: "32 word \<Rightarrow> 32 word" where
  "hang_slot n = (if n = 1 then 3 else if n = 2 then 5 else if n = 3 then 7 else if n = 4 then 9
                  else if n = 5 then 12 else if n = 6 then 13 else 0)"

definition hang_block :: "32 word \<Rightarrow> signed_block" where
  "hang_block n = ex_block (n - 1) (unat (hang_slot (n - 1))) (hang_slot n)
                    (if n = 2 then 3 else if n = 3 \<or> n = 6 then 2 else 1)"

definition hang_controller :: controller where
  "hang_controller = ex_controller
     \<lparr>db := ex_db\<lparr>head_block_number := 6, head_block_id := (6, 13), time := 13,
                  current_producer := 2, current_absolute_slot := 13,
                  last_irreversible_block_num := 3,
                  pending_active_producers := [(3, ex_schedule 0), (6, ex_schedule 0)],
                  producer_index := [1 \<mapsto> ex_producer 1 5, 2 \<mapsto> ex_producer 2 6, 3 \<mapsto> ex_producer 3 2]\<rparr>,
      undo_stack := [],
      revision := 6,
      fork_db := \<lparr>fork_index = [hang_block 4, hang_block 5, hang_block 6],
                  fork_head = Some (hang_block 6), fork_max_size = 4\<rparr>,
      block_log := [hang_block 1, hang_block 2, hang_block 3]\<rparr>"

text \<open>
  A chain of rounds of six slots (two per producer) in which every slot is filled, so
  that block \<open>n\<close> has slot and digest \<open>n\<close>: blocks 1, 6 and 7 are by producer 1, blocks
  2 and 3 by producer 2, blocks 4 and 5 by producer 3. \<open>chain_db n\<close> is the store after
  block \<open>n\<close> and \<open>chain_controller n\<close> the controller then, for \<open>n\<close> from 3 to 7. At
  block 7 the last irreversible block is 5, the block log ends at block 5, and the
  schedule of round start 6 is pending. Block \<open>block_X\<close> extends block 7; \<open>block_Y\<close> and
  \<open>block_Y'\<close> form a longer branch from block 7; \<open>block_Y'_bad\<close> is \<open>block_Y'\<close> with a
  wrong transaction Merkle root.
\<close>

definition fork_env :: env where "fork_env = ex_env 6 2"

definition chain_block :: "32 word \<Rightarrow> signed_block" where
  "chain_block n = (ex_block (n - 1) (unat (n - 1)) n
      (if n = 1 \<or> n = 6 \<or> n = 7 then 1 else if n = 4 \<or> n = 5 then 3 else 2))
      \<lparr>block_mroot := sum_list [1 ..< unat n]\<rparr>"

definition chain_producer :: "account_name \<Rightarrow> 32 word \<Rightarrow> producer_object" where
  "chain_producer a conf = (ex_producer a conf)\<lparr>last_aslot := ucast conf\<rparr>"

definition chain_lib :: "nat \<Rightarrow> nat" where
  "chain_lib n = (if n \<le> 3 then 1 else if n \<le> 5 then 3 else 5)"

definition chain_db :: "nat \<Rightarrow> database" where
  "chain_db n = ex_db
     \<lparr>head_block_number := of_nat n, head_block_id := (of_nat n, n), time := int n,
      current_producer := producer (chain_block (of_nat n)),
      current_absolute_slot := of_nat n,
      last_irreversible_block_num := of_nat (chain_lib n),
      block_merkle_root := map (\<lambda>k. (of_nat k, k)) [1 ..< n + 1],
      averge_block_size := map (\<lambda>k. (0, of_nat k)) [1 ..< n + 1],
      pending_active_producers := (if 6 \<le> n then [(6, ex_schedule 0)] else []),
      producer_index := [1 \<mapsto> chain_producer 1 (if 6 \<le> n then of_nat n else 1),
                         2 \<mapsto> chain_producer 2 3,
                         3 \<mapsto> chain_producer 3 (if 5 \<le> n then 5 else of_nat n)],
      block_summary_index := (\<lambda>i. if 1 \<le> unat i \<and> unat i \<le> n then Some (ucast i, unat i)
                                    else Some (0, 0))\<rparr>"

definition chain_controller :: "nat \<Rightarrow> controller" where
  "chain_controller n = ex_controller
     \<lparr>db := chain_db n,
      undo_stack := map chain_db (rev [chain_lib n ..< n]),
      revision := int n,
      fork_db := \<lparr>fork_index = map (\<lambda>k. chain_block (of_nat k)) [chain_lib n - 1 ..< n + 1],
                  fork_head = Some (chain_block (of_nat n)),
                  fork_max_size = of_nat (n - chain_lib n + 1)\<rparr>,
      block_log := map (\<lambda>k. chain_block (of_nat k)) [1 ..< chain_lib n + 1]\<rparr>"

definition db_at_7 :: database where
  "db_at_7 = chain_db 7"

definition chain_at_7 :: controller where
  "chain_at_7 = chain_controller 7"

text \<open>What is compared when two stores, or two controllers, are said to agree.\<close>

definition db_view :: "database \<Rightarrow> _" where
  "db_view d =
     ((head_block_number d, head_block_id d, time d, current_producer d, current_absolute_slot d,
       recent_slots_filled d, last_irreversible_block_num d, block_merkle_root d,
       averge_block_size d),
      (active_producers d, pending_active_producers d, max_authority_depth d,
       max_transaction_lifetime d, map (producer_index d) [0, 1, 2, 3, 4], producers_by_vote d,
       map (block_summary_index d) [0, 1, 2, 3, 4, 5, 6, 7, 8, 9, 10]),
      (transaction_index d, generated_transaction_index d, account_index d, permission_index d,
       contract_tables d))"

definition chain_view :: "controller \<Rightarrow> _" where
  "chain_view c =
     (db_view (db c), map db_view (undo_stack c), revision c, fork_db c, block_log c,
      pending_block c, pending_block_session c, checkpoints c, skip_flags c)"

definition block_X :: signed_block where
  "block_X = (ex_block 7 7 8 2)\<lparr>block_mroot := 28\<rparr>"

definition block_Y :: signed_block where
  "block_Y = (ex_block 7 7 12 1)\<lparr>block_mroot := 28\<rparr>"

definition block_Y' :: signed_block where
  "block_Y' = (ex_block 8 12 13 1)\<lparr>block_mroot := 40\<rparr>"

definition block_Y'_bad :: signed_block where
  "block_Y'_bad = block_Y'\<lparr>transaction_mroot := 99\<rparr>"


definition after :: "'a outcome \<Rightarrow> controller option" where
  "after m = (case m of None \<Rightarrow> None | Some (Inl e, c) \<Rightarrow> None | Some (Inr x, c) \<Rightarrow> Some c)"

definition chain_after_X :: "controller option" where
  "chain_after_X = after (push_block fork_env block_X 0 chain_at_7)"

definition chain_after_XY :: "controller option" where
  "chain_after_XY = Option.bind chain_after_X (\<lambda>c. after (push_block fork_env block_Y 0 c))"

definition chain_after_XYY' :: "controller option" where
  "chain_after_XYY' = Option.bind chain_after_XY (\<lambda>c. after (push_block fork_env block_Y' 0 c))"

text \<open>
  A transaction with one action of account 1 and no declared authority; the same action
  declaring \<open>1@active\<close>, whose authority is the single key 777; a controller on an empty
  chain whose pending session holds that action's effect; a block with the transaction in
  one shard of its first cycle and in two shards of its second cycle.
\<close>

definition transfer_action :: action where
  "transfer_action = \<lparr>act_scope = 1, act_name = 5, authorization = [], act_data = []\<rparr>"

definition transfer_trx :: signed_transaction where
  "transfer_trx = \<lparr>expiration = 100, ref_block_num = 0, ref_block_prefix = 0, read_scope = [],
                    write_scope = [1], actions = [transfer_action], signatures = []\<rparr>"




definition transfer_trace :: "16 word \<Rightarrow> 32 word \<Rightarrow> transaction_trace" where
  "transfer_trace r ci =
     \<lparr>trace_id = 100,
      action_traces = [\<lparr>receiver = 1, act = transfer_action, console = [], region_id = r,
                        cycle_index = ci\<rparr>],
      deferred_transactions = []\<rparr>"

definition pending_chain :: controller where
  "pending_chain = ex_controller
     \<lparr>db := ex_db\<lparr>contract_tables := [5]\<rparr>, undo_stack := [ex_db], revision := 1,
      pending_block := Some (default_block
         \<lparr>regions := [\<lparr>region = 0, cycles_summary = [[[\<lparr>status = executed, receipt_id = 100\<rparr>]]]\<rparr>],
          input_transactions := [transfer_trx]\<rparr>),
      pending_block_trace := Some \<lparr>trace_block = default_block, region_traces = [\<lparr>cycle_traces = []\<rparr>]\<rparr>,
      pending_block_session := True,
      pending_cycle_trace := Some \<lparr>shard_traces =
         [\<lparr>shard_root = 0, transaction_traces = [transfer_trace 0 0]\<rparr>]\<rparr>,
      pending_transaction_signals := [transfer_trx]\<rparr>"

definition pending_view :: "controller \<Rightarrow> _" where
  "pending_view c =
     (contract_tables (db c), map contract_tables (undo_stack c), revision c, pending_block c,
      pending_block_trace c, pending_block_session c, pending_cycle c, pending_cycle_trace c,
      pending_transaction_signals c, fork_index (fork_db c), block_log c, head_block_id (db c))"


text \<open>
  The same rounds with producer 2 absent from the start and producer 3 absent after block
  2: blocks 1 and 3 to 6 are by producer 1 (slots 3, 6, 9, 12, 15), block 2 by producer 3
  (slot 5), and producer 2 comes back with block 7 (slot 16). \<open>stall_controller\<close> is the
  state in which block 7 is finalized.
\<close>

definition stall_slot :: "32 word \<Rightarrow> 32 word" where
  "stall_slot n = (if n = 1 then 3 else if n = 2 then 5 else if n = 3 then 6 else if n = 4 then 9
                   else if n = 5 then 12 else if n = 6 then 15 else if n = 7 then 16 else 0)"

definition stall_block :: "32 word \<Rightarrow> signed_block" where
  "stall_block n = ex_block (n - 1) (unat (stall_slot (n - 1))) (stall_slot n)
                     (if n = 2 then 3 else if n = 7 then 2 else 1)"

definition stall_controller :: controller where
  "stall_controller = ex_controller
     \<lparr>db := ex_db\<lparr>head_block_number := 7, head_block_id := (7, 16), time := 16,
                  current_producer := 2, current_absolute_slot := 16,
                  last_irreversible_block_num := 2,
                  pending_active_producers := [(3, ex_schedule 0), (6, ex_schedule 0)],
                  producer_index := [1 \<mapsto> ex_producer 1 6, 2 \<mapsto> ex_producer 2 7, 3 \<mapsto> ex_producer 3 2]\<rparr>,
      undo_stack := [],
      revision := 7,
      fork_db := \<lparr>fork_index = map stall_block [3, 4, 5, 6, 7],
                  fork_head = Some (stall_block 7), fork_max_size = 6\<rparr>,
      block_log := [stall_block 1, stall_block 2]\<rparr>"

text \<open>
  Twenty-one producers, one slot each per round. Producers 1 to 7 produced blocks 3 to 9
  (slots 21 to 27) and then stopped; producer 8 produced block 10 (slot 28), missed a
  round and produces block 28 (slot 70); producers 9 to 12 produced blocks 11 to 14
  (slots 29 to 32); producers 9 to 21 produced blocks 15 to 27 (slots 50 to 62).
  \<open>wide_controller\<close> is the state in which block 28 is finalized: the stored last
  irreversible block is 10, the block log ends at block 10, blocks 11 to 28 are in the
  fork database with one undo record each, and the schedule of round start 21 is pending.
\<close>

definition wide_schedule :: producer_schedule_type where
  "wide_schedule = \<lparr>version = 0, producers =
     map (\<lambda>n. \<lparr>producer_name = of_nat n, block_signing_key = 100 + n\<rparr>) [1 ..< 22]\<rparr>"

definition wide_confirmed :: "nat \<Rightarrow> 32 word" where
  "wide_confirmed n = (if n \<le> 7 then of_nat (n + 2) else if n = 8 then 28 else of_nat (n + 6))"

definition wide_slot :: "nat \<Rightarrow> nat" where
  "wide_slot n = (if n = 0 then 0 else if n \<le> 14 then n + 18 else if n \<le> 27 then n + 35 else 70)"

definition wide_block :: "nat \<Rightarrow> signed_block" where
  "wide_block n = ex_block (of_nat (n - 1)) (wide_slot (n - 1)) (of_nat (wide_slot n))
                    (if n \<le> 2 then of_nat (n + 19) else if n \<le> 14 then of_nat (n - 2)
                     else if n \<le> 27 then of_nat (n - 6) else 8)"

definition wide_controller :: controller where
  "wide_controller = ex_controller
     \<lparr>db := ex_db\<lparr>head_block_number := 28, head_block_id := (28, 70), time := 70,
                  current_producer := 8, current_absolute_slot := 70,
                  last_irreversible_block_num := 10,
                  active_producers := wide_schedule,
                  pending_active_producers := [(21, wide_schedule)],
                  producer_index := (\<lambda>a. if 1 \<le> unat a \<and> unat a \<le> 21
                                         then Some (ex_producer a (wide_confirmed (unat a))) else None)\<rparr>,
      undo_stack := replicate 18 ex_db,
      revision := 28,
      fork_db := \<lparr>fork_index = map wide_block [11 ..< 29],
                  fork_head = Some (wide_block 28), fork_max_size = 19\<rparr>,
      block_log := map wide_block [1 ..< 11]\<rparr>"

section \<open>Outcomes\<close>


lemma afterD: "after m = Some c \<Longrightarrow> \<exists>x. m = Some (Inr x, c)"
  by (auto simp: after_def split: option.splits sum.splits prod.splits)

lemma bnd_SomeD:
  "bnd m k c = Some (r, c') \<Longrightarrow>
     (\<exists>e. m c = Some (Inl e, c') \<and> r = Inl e) \<or> (\<exists>x c1. m c = Some (Inr x, c1) \<and> k x c1 = Some (r, c'))"
  by (auto simp: bnd_def split: option.splits sum.splits prod.splits)

lemma bnd_InrD:
  "bnd m k c = Some (Inr y, c') \<Longrightarrow> \<exists>x c1. m c = Some (Inr x, c1) \<and> k x c1 = Some (Inr y, c')"
  by (auto simp: bnd_def split: option.splits sum.splits prod.splits)

section \<open>The pending-schedule erase loop\<close>

lemma erase_pending_Some_D:
  assumes "erase_pending new_lib pend = Some y"
  shows "(\<forall>x\<in>set pend. fst x < new_lib) \<and> y = []"
  using assms
proof (induction rule: erase_pending.raw_induct[rotated, consumes 1])
  case (1 f l p r)
  show ?case
  proof (cases p)
    case Nil
    with 1(2) show ?thesis by auto
  next
    case (Cons q qs)
    show ?thesis
    proof (cases "fst q < l")
      case True
      with Cons 1(2) have "f l qs = Some r" by simp
      from 1(1)[OF this] True Cons show ?thesis by simp
    next
      case False
      with Cons 1(2) have "f l p = Some r" by simp
      from 1(1)[OF this] False Cons show ?thesis by simp
    qed
  qed
qed

lemma erase_pending_stuck:
  "\<exists>x\<in>set pend. \<not> fst x < new_lib \<Longrightarrow> erase_pending new_lib pend = None"
  using erase_pending_Some_D by (cases "erase_pending new_lib pend") blast+

lemma erase_pending_all_below:
  "\<forall>x\<in>set pend. fst x < new_lib \<Longrightarrow> erase_pending new_lib pend = Some []"
  by (induction pend) (simp_all add: erase_pending.simps)

lemma update_lib_diverges:
  assumes "collect_producers (db c) (producers (active_producers (db c))) = Inr objs"
    and "offset = EOS_PERCENT E (length objs) (percent_100 E - irreversible_threshold_percent E)"
    and "offset < length objs"
    and "new_lib = nth_confirmed objs offset"
    and "c1 = advance_lib new_lib c"
    and "fst (write_newly_irreversible E new_lib c1) = Inr ()"
    and "last_block_on_disk c1 < new_lib"
    and "find_new_schedule new_lib (pending_active_producers (db (snd (write_newly_irreversible E new_lib c1)))) \<noteq> None"
    and "\<exists>x\<in>set (pending_active_producers (db (snd (write_newly_irreversible E new_lib c1)))). \<not> fst x < new_lib"
  shows "update_last_irreversible_block E c = None"
proof -
  obtain r c2 where w: "write_newly_irreversible E new_lib c1 = (r, c2)" by (cases "write_newly_irreversible E new_lib c1")
  with assms(6) have r: "r = Inr ()" by simp
  from assms(8) w obtain sch where sch: "find_new_schedule new_lib (pending_active_producers (db c2)) = Some sch" by auto
  from assms(9) w have "erase_pending new_lib (pending_active_producers (db c2)) = None"
    by (simp add: erase_pending_stuck)
  with sch assms(7) have "activate_pending new_lib (last_block_on_disk c1) c2 = None"
    by (simp add: activate_pending_def)
  with assms(1-5) w r show ?thesis
    by (simp add: update_last_irreversible_block_def Let_def)
qed

section \<open>What a block application keeps\<close>

text \<open>
  Without the undo of a fork switch the stored number only grows. Inside
  \<^verbatim>\<open>_apply_block\<close> every step keeps or raises it and only shortens the undo history
  (\<open>commit\<close>), so that a failed application is rolled back to the state before it.
\<close>

lemma lib_le_refl [simp]: "lib_le c c"
  by (simp add: lib_le_def)

lemma lib_le_trans: "lib_le a b \<Longrightarrow> lib_le b c \<Longrightarrow> lib_le a c"
  by (auto simp: lib_le_def)

lemma keeps_history_refl [simp]: "keeps_history c c"
  by (simp add: keeps_history_def)

lemma keeps_history_trans: "keeps_history a b \<Longrightarrow> keeps_history b c \<Longrightarrow> keeps_history a c"
  by (auto simp: keeps_history_def intro: lib_le_trans prefix_order.trans)

lemma keeps_history_same:
  "last_irreversible_block_num (db c') = last_irreversible_block_num (db c) \<Longrightarrow>
   undo_stack c' = undo_stack c \<Longrightarrow> keeps_history c c'"
  by (simp add: keeps_history_def lib_le_def)

lemma steadyI: "(\<And>c r c'. m c = Some (r, c') \<Longrightarrow> keeps_history c c') \<Longrightarrow> steady m"
  by (simp add: steady_def)

lemma steadyD: "steady m \<Longrightarrow> m c = Some (r, c') \<Longrightarrow> keeps_history c c'"
  by (simp add: steady_def)

lemma monoI: "(\<And>c r c'. m c = Some (r, c') \<Longrightarrow> lib_le c c') \<Longrightarrow> mono m"
  by (simp add: mono_def)

lemma monoD: "mono m \<Longrightarrow> m c = Some (r, c') \<Longrightarrow> lib_le c c'"
  by (simp add: mono_def)

lemma steady_mono: "steady m \<Longrightarrow> mono m"
  by (auto simp: steady_def mono_def keeps_history_def)

lemma steady_ret [simp]: "steady (ret x)"
  by (auto intro!: steadyI simp: ret_def)

lemma steady_throw [simp]: "steady (throw e)"
  by (auto intro!: steadyI simp: throw_def)

lemma steady_require [simp]: "steady (require b e)"
  by (auto intro!: steadyI simp: require_def split: if_splits)

lemma steady_lift [simp]: "steady (lift f)"
  by (auto intro!: steadyI simp: lift_def split: sum.splits)

lemma steady_bnd:
  assumes "steady m" and "\<And>x. steady (k x)"
  shows "steady (bnd m k)"
proof (rule steadyI)
  fix c r c'
  assume "bnd m k c = Some (r, c')"
  then consider e where "m c = Some (Inl e, c')"
    | x c1 where "m c = Some (Inr x, c1)" "k x c1 = Some (r, c')"
    by (blast dest: bnd_SomeD)
  then show "keeps_history c c'"
  proof cases
    case 1
    with assms(1) show ?thesis by (blast dest: steadyD)
  next
    case 2
    with assms show ?thesis by (blast dest: steadyD intro: keeps_history_trans)
  qed
qed

lemma steady_self: "(\<And>c0. steady (m c0)) \<Longrightarrow> steady (\<lambda>c. m c c)"
  by (auto simp: steady_def)

lemma steady_if: "steady m \<Longrightarrow> steady n \<Longrightarrow> steady (if b then m else n)"
  by simp

lemma steady_modify: "(\<And>c. keeps_history c (f c)) \<Longrightarrow> steady (modify f)"
  by (auto intro!: steadyI simp: modify_def)

lemma steady_with_skip_flags: "steady m \<Longrightarrow> steady (with_skip_flags s m)"
proof (rule steadyI)
  fix c r c'
  assume m: "steady m" and w: "with_skip_flags s m c = Some (r, c')"
  then obtain c1 where "m (c\<lparr>skip_flags := s\<rparr>) = Some (r, c1)" "c' = c1\<lparr>skip_flags := skip_flags c\<rparr>"
    by (auto simp: with_skip_flags_def split: option.splits prod.splits)
  with m have "keeps_history (c\<lparr>skip_flags := s\<rparr>) c1" "c' = c1\<lparr>skip_flags := skip_flags c\<rparr>"
    by (auto dest: steadyD)
  then show "keeps_history c c'"
    by (simp add: keeps_history_def lib_le_def)
qed

lemma steady_with_applying_block: "steady m \<Longrightarrow> steady (with_applying_block m)"
proof (rule steadyI)
  fix c r c'
  assume m: "steady m" and w: "with_applying_block m c = Some (r, c')"
  then obtain c1 where "m (c\<lparr>currently_applying_block := True\<rparr>) = Some (r, c1)"
     "c' = c1\<lparr>currently_applying_block := currently_applying_block c\<rparr>"
    by (auto simp: with_applying_block_def split: option.splits prod.splits)
  with m have "keeps_history (c\<lparr>currently_applying_block := True\<rparr>) c1"
     "c' = c1\<lparr>currently_applying_block := currently_applying_block c\<rparr>"
    by (auto dest: steadyD)
  then show "keeps_history c c'"
    by (simp add: keeps_history_def lib_le_def)
qed

lemma steady_exec_actions:
  assumes "exec_keeps_lib E"
  shows "steady (exec_actions E trx as result)"
proof (rule steadyI)
  fix c r c'
  show "exec_actions E trx as result c = Some (r, c') \<Longrightarrow> keeps_history c c'"
  proof (induction as arbitrary: result c)
    case Nil
    then show ?case by (simp add: ret_def)
  next
    case (Cons a as)
    show ?case
    proof (cases "exec E (db c) trx a")
      case (Inl e)
      with Cons.prems show ?thesis by (simp add: throw_def)
    next
      case (Inr x)
      obtain d' ats dts where x: "x = (d', ats, dts)" by (cases x)
      with Inr Cons.prems have
        "exec_actions E trx as (result\<lparr>action_traces := action_traces result @ ats,
            deferred_transactions := deferred_transactions result @ dts\<rparr>) (c\<lparr>db := d'\<rparr>) = Some (r, c')"
        by simp
      from Cons.IH[OF this] have "keeps_history (c\<lparr>db := d'\<rparr>) c'" .
      moreover from assms[unfolded exec_keeps_lib_def, rule_format, OF Inr[unfolded x]]
      have "last_irreversible_block_num d' = last_irreversible_block_num (db c)" .
      ultimately show ?thesis by (simp add: keeps_history_def lib_le_def)
    qed
  qed
qed

lemma steady_charge_bandwidth: "steady (charge_bandwidth sz t as)"
proof (rule steadyI)
  fix c r c'
  show "charge_bandwidth sz t as c = Some (r, c') \<Longrightarrow> keeps_history c c'"
  proof (induction as arbitrary: c)
    case Nil
    then show ?case by (simp add: ret_def)
  next
    case (Cons a as)
    show ?case
    proof (cases "bandwidth_usage_index (db c) a")
      case None
      with Cons.prems show ?thesis by (simp add: throw_def)
    next
      case (Some bu)
      define c1 where "c1 = db_modify (\<lambda>d. d\<lparr>bandwidth_usage_index :=
                                       (bandwidth_usage_index d)(a \<mapsto> bu @ [(sz, t)])\<rparr>) c"
      have k: "keeps_history c c1"
        by (simp add: c1_def keeps_history_def lib_le_def db_modify_def)
      show ?thesis
      proof (cases "staked_balance_index (db c1) a")
        case None
        with Some Cons.prems have "c' = c1"
          by (simp add: throw_def c1_def Let_def)
        with k show ?thesis by simp
      next
        case (Some sb)
        with \<open>bandwidth_usage_index (db c) a = Some bu\<close> Cons.prems
        have "charge_bandwidth sz t as c1 = Some (r, c')"
          by (simp add: c1_def Let_def)
        from Cons.IH[OF this] k show ?thesis by (blast intro: keeps_history_trans)
      qed
    qed
  qed
qed

lemma steady_apply_transaction:
  "exec_keeps_lib E \<Longrightarrow> steady (apply_transaction' E meta)"
  unfolding apply_transaction'_def
  by (intro steady_bnd steady_exec_actions steady_ret)
     (auto intro!: steadyI dest: steadyD[OF steady_charge_bandwidth])

lemma steady_apply_shard:
  assumes "exec_keeps_lib E"
  shows "steady (apply_shard E b r ci si rs s)"
proof (induction rs arbitrary: s)
  case Nil
  show ?case by simp
next
  case (Cons receipt rs)
  show ?case
  proof (cases "status receipt = executed")
    case False
    with Cons show ?thesis by simp
  next
    case True
    show ?thesis
    proof (cases "find_input_transaction E b (receipt_id receipt)")
      case None
      with True show ?thesis by simp
    next
      case (Some trx)
      with True show ?thesis
        by (simp, intro steady_bnd steady_apply_transaction assms Cons)
    qed
  qed
qed

lemma steady_apply_cycle:
  assumes "exec_keeps_lib E"
  shows "steady (apply_cycle E b r ci si shards ct)"
proof (induction shards arbitrary: si ct)
  case Nil
  show ?case by simp
next
  case (Cons shard shards)
  show ?case
    by (simp, intro steady_bnd steady_apply_shard assms Cons)
qed

lemma keeps_history_db_modify:
  "(\<And>d. last_irreversible_block_num (f d) = last_irreversible_block_num d) \<Longrightarrow>
   keeps_history c (db_modify f c)"
  by (simp add: keeps_history_def lib_le_def db_modify_def)

lemma steady_apply_cycle_trace: "steady (modify (apply_cycle_trace' E ct))"
  by (rule steady_modify) (simp add: apply_cycle_trace'_def keeps_history_db_modify)

lemma steady_apply_region:
  assumes "exec_keeps_lib E"
  shows "steady (apply_region E b r ci cycles rt)"
proof (induction cycles arbitrary: ci rt)
  case Nil
  show ?case by simp
next
  case (Cons cycle cycles)
  show ?case
    by (simp, intro steady_bnd steady_apply_cycle steady_apply_cycle_trace assms Cons)
qed

lemma steady_apply_regions:
  assumes "exec_keeps_lib E"
  shows "steady (apply_regions E b rs bt)"
proof (induction rs arbitrary: bt)
  case Nil
  show ?case by simp
next
  case (Cons r rs)
  show ?case
    by (simp, intro steady_bnd steady_apply_region assms Cons)
qed


lemma steady_set_producers_authority: "steady (set_producers_authority E)"
  by (auto intro!: steadyI simp: set_producers_authority_def ret_def throw_def db_modify_def
      keeps_history_def lib_le_def split: if_splits)

lemma push_pending_schedule_lib [simp]:
  "last_irreversible_block_num (push_pending_schedule n sch d) = last_irreversible_block_num d"
  by (simp add: push_pending_schedule_def)

lemma steady_update_global_properties: "steady (update_global_properties E b)"
  unfolding update_global_properties_def
  by (intro steady_if steady_bnd steady_lift steady_require steady_ret
        steady_set_producers_authority steady_modify keeps_history_db_modify
        push_pending_schedule_lib)
     (auto intro!: steadyI simp: require_def split: if_splits)

lemma steady_count_missed: "steady (count_missed E b is)"
proof (rule steadyI)
  fix c r c'
  show "count_missed E b is c = Some (r, c') \<Longrightarrow> keeps_history c c'"
  proof (induction "is" arbitrary: c)
    case Nil
    then show ?case by (simp add: ret_def)
  next
    case (Cons i "is")
    show ?case
    proof (cases "get_scheduled_producer E (db c) (i + 1)")
      case (Inl e)
      with Cons.prems show ?thesis by (simp add: throw_def)
    next
      case (Inr name)
      show ?thesis
      proof (cases "get_producer (db c) name")
        case (Inl e)
        with Inr Cons.prems show ?thesis by (simp add: throw_def)
      next
        case (Inr pm)
        define c1 where "c1 = (if owner pm \<noteq> producer b
                  then db_modify (\<lambda>d. d\<lparr>producer_index := (producer_index d)
                          (name \<mapsto> pm\<lparr>total_missed := total_missed pm + 1\<rparr>)\<rparr>) c
                  else c)"
        have k: "keeps_history c c1"
          by (simp add: c1_def keeps_history_def lib_le_def db_modify_def)
        from Inr \<open>get_scheduled_producer E (db c) (i + 1) = Inr name\<close> Cons.prems
        have "count_missed E b is c1 = Some (r, c')"
          by (simp add: c1_def)
        from Cons.IH[OF this] k show ?thesis by (blast intro: keeps_history_trans)
      qed
    qed
  qed
qed

lemma steady_update_global_dynamic_data: "steady (update_global_dynamic_data E b)"
  unfolding update_global_dynamic_data_def Let_def
  apply (intro steady_bnd steady_require steady_count_missed steady_modify keeps_history_db_modify)
        apply (auto intro!: steadyI simp: require_def ret_def keeps_history_def lib_le_def split: if_splits)
  done

lemma steady_update_signing_producer: "steady (update_signing_producer E p b)"
  by (auto intro!: steadyI simp: update_signing_producer_def Let_def ret_def throw_def db_modify_def
      keeps_history_def lib_le_def split: option.splits)

lemma steady_create_block_summary: "steady (create_block_summary E b)"
  by (auto intro!: steadyI simp: create_block_summary_def Let_def ret_def throw_def db_modify_def
      keeps_history_def lib_le_def split: option.splits)

lemma write_irreversible_keeps:
  "write_irreversible E ns c = (r, c') \<Longrightarrow> db c' = db c \<and> undo_stack c' = undo_stack c"
proof (induction ns arbitrary: c)
  case Nil
  then show ?case by simp
next
  case (Cons n ns)
  show ?case
  proof (cases "fetch_block_by_number E c n")
    case None
    with Cons.prems show ?thesis by simp
  next
    case (Some blk)
    with Cons.prems have "write_irreversible E ns
        (c\<lparr>block_log := block_log_append (block_log c) blk,
           irreversible_signals := irreversible_signals c @ [blk]\<rparr>) = (r, c')"
      by simp
    from Cons.IH[OF this] show ?thesis by simp
  qed
qed

lemma write_newly_irreversible_keeps:
  "write_newly_irreversible E n c = (r, c') \<Longrightarrow> db c' = db c \<and> undo_stack c' = undo_stack c"
  by (auto simp: write_newly_irreversible_def dest: write_irreversible_keeps split: if_splits)

lemma advance_lib_keeps: "keeps_history c (advance_lib n c)"
  by (auto simp: advance_lib_def keeps_history_def lib_le_def db_modify_def)

lemma activate_pending_keeps:
  "activate_pending n k c = Some c' \<Longrightarrow> keeps_history c c'"
  by (auto simp: activate_pending_def keeps_history_def lib_le_def db_modify_def
      split: if_splits option.splits Option.bind_splits)

lemma trim_and_commit_keeps: "keeps_history c (trim_and_commit n c)"
  by (simp add: trim_and_commit_def db_commit_def keeps_history_def lib_le_def take_is_prefix)

lemma steady_update_last_irreversible_block: "steady (update_last_irreversible_block E)"
proof (rule steadyI)
  fix c r c'
  assume u: "update_last_irreversible_block E c = Some (r, c')"
  show "keeps_history c c'"
  proof (cases "collect_producers (db c) (producers (active_producers (db c)))")
    case (Inl e)
    with u show ?thesis by (simp add: update_last_irreversible_block_def)
  next
    case (Inr objs)
    define offset where "offset = EOS_PERCENT E (length objs) (percent_100 E - irreversible_threshold_percent E)"
    show ?thesis
    proof (cases "offset < length objs")
      case False
      with u Inr show ?thesis by (simp add: update_last_irreversible_block_def offset_def)
    next
      case True
      define n where "n = nth_confirmed objs offset"
      define c1 where "c1 = advance_lib n c"
      obtain r2 c2 where w: "write_newly_irreversible E n c1 = (r2, c2)"
        by (cases "write_newly_irreversible E n c1")
      have k1: "keeps_history c c1" by (simp add: c1_def advance_lib_keeps)
      from write_newly_irreversible_keeps[OF w] have k2: "keeps_history c1 c2"
        by (simp add: keeps_history_def lib_le_def)
      show ?thesis
      proof (cases r2)
        case (Inl e)
        with u Inr True w have "c' = c2"
          by (simp add: update_last_irreversible_block_def offset_def n_def c1_def Let_def)
        with k1 k2 show ?thesis by (blast intro: keeps_history_trans)
      next
        case (Inr uu)
        with u \<open>collect_producers (db c) (producers (active_producers (db c))) = Inr objs\<close> True w
        obtain c3 where a: "activate_pending n (last_block_on_disk c1) c2 = Some c3"
          and c': "c' = trim_and_commit n c3"
          by (auto simp: update_last_irreversible_block_def offset_def n_def c1_def Let_def
              split: Option.bind_splits)
        from activate_pending_keeps[OF a] trim_and_commit_keeps[of c3 n] c' k1 k2
        show ?thesis by (blast intro: keeps_history_trans)
      qed
    qed
  qed
qed

lemma steady_finalize_block: "steady (finalize_block' E trace)"
  unfolding finalize_block'_def Let_def clear_expired_transactions_def
  apply (intro steady_bnd steady_update_global_properties steady_update_global_dynamic_data
      steady_update_signing_producer steady_update_last_irreversible_block
      steady_create_block_summary steady_ret steady_modify)
   apply (auto intro!: steadyI simp: lift_def keeps_history_def lib_le_def split: sum.splits)
  done

lemma steady_apply_block'':
  "exec_keeps_lib E \<Longrightarrow> steady (apply_block'' E b)"
  unfolding apply_block''_def
  apply (intro steady_bnd steady_require steady_apply_regions steady_finalize_block)
   apply (auto intro!: steadyI simp: lift_def split: sum.splits)
  done

lemma steady_apply_block':
  assumes "exec_keeps_lib E"
  shows "steady (apply_block' E b skip)"
proof (rule steadyI)
  fix c r c'
  assume a: "apply_block' E b skip c = Some (r, c')"
  have w: "\<And>s. steady (with_applying_block (with_skip_flags s (apply_block'' E b)))"
    by (intro steady_with_applying_block steady_with_skip_flags steady_apply_block'' assms)
  from a show "keeps_history c c'"
    by (auto simp: apply_block'_def Let_def throw_def split: if_splits option.splits
        dest: steadyD[OF w])
qed


lemma mono_bnd:
  assumes "mono m" and "\<And>x. mono (k x)"
  shows "mono (bnd m k)"
proof (rule monoI)
  fix c r c'
  assume "bnd m k c = Some (r, c')"
  then consider e where "m c = Some (Inl e, c')"
    | x c1 where "m c = Some (Inr x, c1)" "k x c1 = Some (r, c')"
    by (blast dest: bnd_SomeD)
  then show "lib_le c c'"
  proof cases
    case 1
    with assms(1) show ?thesis by (blast dest: monoD)
  next
    case 2
    with assms show ?thesis by (blast dest: monoD intro: lib_le_trans)
  qed
qed

lemma mono_with_skip_flags: "mono m \<Longrightarrow> mono (with_skip_flags s m)"
proof (rule monoI)
  fix c r c'
  assume m: "mono m" and w: "with_skip_flags s m c = Some (r, c')"
  then obtain c1 where "m (c\<lparr>skip_flags := s\<rparr>) = Some (r, c1)" "c' = c1\<lparr>skip_flags := skip_flags c\<rparr>"
    by (auto simp: with_skip_flags_def split: option.splits prod.splits)
  with m have "lib_le (c\<lparr>skip_flags := s\<rparr>) c1" "c' = c1\<lparr>skip_flags := skip_flags c\<rparr>"
    by (auto dest: monoD)
  then show "lib_le c c'"
    by (simp add: lib_le_def)
qed

lemma mono_apply_in_session:
  assumes "exec_keeps_lib E"
  shows "mono (apply_in_session E b skip)"
proof (rule monoI)
  fix c r c'
  assume a: "apply_in_session E b skip c = Some (r, c')"
  then obtain r1 c1 where run: "apply_block' E b skip (start_undo_session c) = Some (r1, c1)"
    by (auto simp: apply_in_session_def split: option.splits)
  from steadyD[OF steady_apply_block'[OF assms] run]
  have k: "lib_le c c1" and p: "prefix (undo_stack c1) (db c # undo_stack c)"
    by (simp_all add: keeps_history_def lib_le_def start_undo_session_def)
  show "lib_le c c'"
  proof (cases r1)
    case (Inr u)
    with a run have "c' = c1" by (simp add: apply_in_session_def)
    with k show ?thesis by simp
  next
    case (Inl e)
    show ?thesis
    proof (cases "e = aborted \<or> undo_stack c1 = []")
      case True
      with a run Inl have "c' = c1" by (auto simp: apply_in_session_def db_undo_def)
      with k show ?thesis by simp
    next
      case False
      then obtain d ds where st: "undo_stack c1 = d # ds" by (cases "undo_stack c1") auto
      with p have "d = db c" by simp
      with a run Inl False st have "db c' = db c" by (auto simp: apply_in_session_def db_undo_def)
      then show ?thesis by (simp add: lib_le_def)
    qed
  qed
qed

lemma mono_push_new_block:
  assumes "exec_keeps_lib E"
  shows "mono (push_new_block E b skip)"
proof (rule monoI)
  fix c r c'
  assume a: "push_new_block E b skip c = Some (r, c')"
  then obtain r1 c1 where run: "apply_in_session E b skip c = Some (r1, c1)" and "db c' = db c1"
    by (auto simp: push_new_block_def split: option.splits sum.splits if_splits)
  with monoD[OF mono_apply_in_session[OF assms] run] show "lib_le c c'"
    by (simp add: lib_le_def)
qed

lemma throw_not_Inr: "bnd m (\<lambda>u. throw e) c \<noteq> Some (Inr v, c')"
  by (auto simp: bnd_def throw_def split: option.splits sum.splits prod.splits)

lemma bnd_bnd_throw_not_Inr: "bnd m (\<lambda>u. bnd (k u) (\<lambda>u. throw e)) c \<noteq> Some (Inr v, c')"
  by (auto simp: bnd_def throw_def split: option.splits sum.splits prod.splits)

lemma switch_forks_True:
  "switch_forks E skip second bs c = Some (Inr v, c') \<Longrightarrow> v = True"
proof (induction bs arbitrary: c)
  case Nil
  then show ?case by (simp add: ret_def)
next
  case (Cons b bs)
  show ?case
  proof (cases "apply_in_session E b skip c")
    case None
    with Cons.prems show ?thesis by simp
  next
    case (Some rc)
    obtain r1 c1 where rc: "rc = (r1, c1)" by (cases rc)
    show ?thesis
    proof (cases r1)
      case (Inr u)
      with Some rc Cons.prems have "switch_forks E skip second bs c1 = Some (Inr v, c')" by simp
      from Cons.IH[OF this] show ?thesis .
    next
      case (Inl e)
      with Some rc Cons.prems show ?thesis
        by (auto simp: bnd_bnd_throw_not_Inr split: if_splits)
    qed
  qed
qed

lemma push_block'_False_mono:
  assumes "exec_keeps_lib E" and "push_block' E b c = Some (Inr False, c')"
  shows "lib_le c c'"
proof (cases "flag_set (skip_flags c) skip_fork_db")
  case True
  with assms(2) have "push_new_block E b (skip_flags c) c = Some (Inr False, c')"
    by (simp add: push_block'_def Let_def)
  from monoD[OF mono_push_new_block[OF assms(1)] this] show ?thesis .
next
  case False
  obtain f new_head where fp: "fork_push_block E (fork_db c) b = (f, new_head)"
    by (cases "fork_push_block E (fork_db c) b")
  define c0 where "c0 = c\<lparr>fork_db := f\<rparr>"
  have c0: "lib_le c c0" by (simp add: c0_def lib_le_def)
  show ?thesis
  proof (cases "previous new_head \<noteq> get_head_block_id c0")
    case False
    with \<open>\<not> flag_set (skip_flags c) skip_fork_db\<close> fp assms(2)
    have "push_new_block E b (skip_flags c) c0 = Some (Inr False, c')"
      by (simp add: push_block'_def Let_def c0_def)
    from monoD[OF mono_push_new_block[OF assms(1)] this] c0 show ?thesis
      by (blast intro: lib_le_trans)
  next
    case True
    show ?thesis
    proof (cases "block_num new_head > head_block_num c0")
      case False
      with True \<open>\<not> flag_set (skip_flags c) skip_fork_db\<close> fp assms(2) have "c' = c0"
        by (simp add: push_block'_def Let_def c0_def ret_def)
      with c0 show ?thesis by simp
    next
      case gt: True
      show ?thesis
      proof (cases "fetch_branch_from E (fork_db c0) (block_id E new_head) (get_head_block_id c0)")
        case (Inl e)
        with gt True \<open>\<not> flag_set (skip_flags c) skip_fork_db\<close> fp assms(2) show ?thesis
          by (simp add: push_block'_def Let_def c0_def throw_def)
      next
        case (Inr br)
        obtain first second where br: "br = (first, second)" by (cases br)
        show ?thesis
        proof (cases "second = []")
          case True
          with Inr br gt \<open>previous new_head \<noteq> get_head_block_id c0\<close>
            \<open>\<not> flag_set (skip_flags c) skip_fork_db\<close> fp assms(2) show ?thesis
            by (simp add: push_block'_def Let_def c0_def throw_def)
        next
          case False
          with Inr br gt \<open>previous new_head \<noteq> get_head_block_id c0\<close>
            \<open>\<not> flag_set (skip_flags c) skip_fork_db\<close> fp assms(2)
          have "bnd (pop_until E (previous (last second)))
                  (\<lambda>u. switch_forks E (skip_flags c) second (rev first)) c0 = Some (Inr False, c')"
            by (simp add: push_block'_def Let_def c0_def)
          then obtain c1 where "switch_forks E (skip_flags c) second (rev first) c1 = Some (Inr False, c')"
            by (blast dest: bnd_InrD)
          from switch_forks_True[OF this] show ?thesis by simp
        qed
      qed
    qed
  qed
qed


lemma mono_steps:
  "mono (ret x)" "mono (throw e)" "mono (require b e)" "mono (lift f)"
  by (simp_all add: steady_mono)

lemma mono_modify: "(\<And>c. lib_le c (f c)) \<Longrightarrow> mono (modify f)"
  by (auto intro!: monoI simp: modify_def)

lemma mono_same_db: "(\<And>c r c'. m c = Some (r, c') \<Longrightarrow> db c' = db c) \<Longrightarrow> mono m"
  by (auto intro!: monoI simp: lib_le_def)

lemma start_pending_shard'_db: "start_pending_shard' c = Some (r, c') \<Longrightarrow> db c' = db c"
  by (auto simp: start_pending_shard'_def throw_def ret_def split: option.splits if_splits)

lemma start_pending_cycle'_db: "start_pending_cycle' c = Some (r, c') \<Longrightarrow> db c' = db c"
  by (auto simp: start_pending_cycle'_def throw_def dest!: start_pending_shard'_db
      split: option.splits if_splits)

lemma start_pending_block'_db: "start_pending_block' c = Some (r, c') \<Longrightarrow> db c' = db c"
  by (auto simp: start_pending_block'_def throw_def start_undo_session_def
      dest!: start_pending_cycle'_db split: if_splits)

lemma finalize_pending_cycle'_lib:
  "finalize_pending_cycle' E c = Some (r, c') \<Longrightarrow> lib_le c c'"
  by (auto simp: finalize_pending_cycle'_def throw_def ret_def Let_def apply_cycle_trace'_def
      db_modify_def lib_le_def split: option.splits if_splits)

lemma fill_pending_header_db: "fill_pending_header E w p c = Some (r, c') \<Longrightarrow> db c' = db c"
  by (auto simp: fill_pending_header_def throw_def ret_def Let_def
      split: option.splits if_splits sum.splits)

lemma sign_pending_db: "sign_pending E k c = Some (r, c') \<Longrightarrow> db c' = db c"
  by (auto simp: sign_pending_def throw_def ret_def split: option.splits if_splits)

lemma take_pending_block_db: "take_pending_block c = Some (r, c') \<Longrightarrow> db c' = db c"
  by (auto simp: take_pending_block_def throw_def ret_def split: option.splits if_splits)

lemma mono_finalize_pending_block: "mono (finalize_pending_block E)"
  by (auto intro!: monoI simp: finalize_pending_block_def throw_def split: option.splits
      dest: monoD[OF steady_mono[OF steady_finalize_block]])

lemma mono_start_if_none:
  "mono (\<lambda>c. if pending_block c = None then start_pending_block' c else ret () c)"
  by (rule mono_same_db) (auto simp: ret_def dest: start_pending_block'_db split: if_splits)

lemma mono_generate_block': "mono (generate_block' E w p k)"
  unfolding generate_block'_def
  by (intro mono_bnd mono_steps mono_finalize_pending_block mono_start_if_none
        monoI[of "finalize_pending_cycle' E", OF finalize_pending_cycle'_lib]
        mono_same_db[of "fill_pending_header E w _", OF fill_pending_header_db]
        mono_same_db[of "sign_pending E k", OF sign_pending_db]
        mono_same_db[of take_pending_block, OF take_pending_block_db])
     (auto intro!: mono_same_db simp: ret_def require_def modify_def split: if_splits)

lemma mono_generate_block: "mono (generate_block E w p k skip)"
  unfolding generate_block_def by (intro mono_with_skip_flags mono_generate_block')

section \<open>Erasing activated schedules\<close>

text \<open>
  Claim C9. \<^verbatim>\<open>update_last_irreversible_block\<close> is to terminate for every contents of
  \<open>pending_active_producers\<close>, also when entries with \<open>activation_block \<ge> new_lib\<close>
  remain behind the erased prefix. The loop in the source erases the front entry only
  while it lies below \<open>new_lib\<close> and otherwise repeats without change. On the chain
  below (stored value 3, pending schedules for blocks 3 and 6, candidate 5) the operation
  does not return.
\<close>

theorem C9_erase_loop_never_returns: "update_last_irreversible_block (ex_env 3 1) hang_controller = None"
proof (rule update_lib_diverges[where objs = "[ex_producer 1 5, ex_producer 2 6, ex_producer 3 2]" and offset = 1 and new_lib = 5, OF _ _ _ _ refl])
  show "collect_producers (db hang_controller) (producers (active_producers (db hang_controller))) = Inr [ex_producer 1 5, ex_producer 2 6, ex_producer 3 2]"
    by (simp add: hang_controller_def ex_controller_def ex_db_def ex_schedule_def get_producer_def)
  show "1 = EOS_PERCENT (ex_env 3 1) (length [ex_producer 1 5, ex_producer 2 6, ex_producer 3 2])
         (percent_100 (ex_env 3 1) - irreversible_threshold_percent (ex_env 3 1))"
    by (simp add: EOS_PERCENT_def ex_env_def)
  show "1 < length [ex_producer 1 5, ex_producer 2 6, ex_producer 3 2]" by simp
  show "5 = nth_confirmed [ex_producer 1 5, ex_producer 2 6, ex_producer 3 2] 1"
    by (simp add: nth_confirmed_def ex_producer_def)
  show "fst (write_newly_irreversible (ex_env 3 1) 5 (advance_lib 5 hang_controller)) = Inr ()"
    by code_simp
  show "last_block_on_disk (advance_lib 5 hang_controller) < 5"
    by code_simp
  show "find_new_schedule 5 (pending_active_producers (db (snd (write_newly_irreversible (ex_env 3 1) 5 (advance_lib 5 hang_controller))))) \<noteq> None"
    by code_simp
  show "\<exists>x\<in>set (pending_active_producers (db (snd (write_newly_irreversible (ex_env 3 1) 5 (advance_lib 5 hang_controller))))). \<not> fst x < 5"
    by code_simp
qed

section \<open>Block header validation\<close>

text \<open>
  Claim C5, as stated: \<^verbatim>\<open>validate_block_header\<close> accepts a block iff its \<open>previous\<close> is
  the head block id, its timestamp lies strictly after the head block time, it carries
  \<open>new_producers\<close> only at a block number divisible by \<open>blocks_per_round\<close>, its producer
  is the producer scheduled for its slot (unless the schedule check is skipped), its
  signature verifies under that producer's signing key (unless the signature check is
  skipped), and its \<open>transaction_mroot\<close> is the recomputed Merkle root. The source also
  looks the scheduled producer up in the producer index, before either skip flag is
  consulted, and the lookup throws when there is no producer object. In the store below
  the schedule names producers 1, 2 and 3 and the producer index is empty: the block
  extends the head at a later time, carries no \<open>new_producers\<close>, is produced by the
  producer scheduled for its slot, has the right Merkle root, and the signature check is
  skipped; it is rejected with the lookup's error.
\<close>

theorem C5_unregistered_producer_counterexample:
  "previous (ex_block 0 0 1 1) = head_block_id ex_db
   \<and> time ex_db < to_time_point fork_env (timestamp (ex_block 0 0 1 1))
   \<and> new_producers (ex_block 0 0 1 1) = None
   \<and> get_scheduled_producer fork_env ex_db (get_slot_at_time fork_env ex_db (timestamp (ex_block 0 0 1 1)))
       = Inr (producer (ex_block 0 0 1 1))
   \<and> flag_set skip_producer_signature skip_producer_signature
   \<and> transaction_mroot (ex_block 0 0 1 1) = calculate_transaction_merkle_root fork_env (ex_block 0 0 1 1)
   \<and> producer_index ex_db (producer (ex_block 0 0 1 1)) = None
   \<and> validate_block_header fork_env ex_db skip_producer_signature (ex_block 0 0 1 1) = Inl key_not_found"
  by code_simp

text \<open>
  In a store where the scheduled producer has a producer object filed under its own name,
  the six conditions of the claim decide acceptance.
\<close>

lemma validate_block_header_registered:
  assumes "get_scheduled_producer E d (get_slot_at_time E d (timestamp b)) = Inr name"
    and "producer_index d name = Some po"
    and "owner po = name"
  shows "validate_block_header E d skip b = Inr po \<longleftrightarrow>
           (previous b = head_block_id d
            \<and> time d < to_time_point E (timestamp b)
            \<and> (new_producers b = None \<or> unat (block_num b) mod blocks_per_round E = 0)
            \<and> (flag_set skip skip_producer_schedule_check \<or> producer b = name)
            \<and> (flag_set skip skip_producer_signature \<or> validate_signee E b (signing_key po))
            \<and> transaction_mroot b = calculate_transaction_merkle_root E b)"
  using assms by (auto simp: validate_block_header_def get_producer_def)

text \<open>
  Claim C5, amended. Without any assumption on the store, \<^verbatim>\<open>validate_block_header\<close>
  accepts a block, returning the producer object \<open>po\<close>, iff the block's \<open>previous\<close> is the
  head block id, its timestamp lies strictly after the head block time, it carries
  \<open>new_producers\<close> only at a block number divisible by \<open>blocks_per_round\<close>, the producer
  scheduled for its slot has the producer object \<open>po\<close> in the store (whatever the skip
  flags), the block's producer is the owner of \<open>po\<close> (unless the schedule check is
  skipped), its signature verifies under the signing key of \<open>po\<close> (unless the signature
  check is skipped), and its \<open>transaction_mroot\<close> is the recomputed Merkle root.
\<close>

theorem C5_validate_block_header_accepts_iff:
  "validate_block_header E d skip b = Inr po \<longleftrightarrow>
     (previous b = head_block_id d
      \<and> time d < to_time_point E (timestamp b)
      \<and> (new_producers b = None \<or> unat (block_num b) mod blocks_per_round E = 0)
      \<and> (\<exists>name. get_scheduled_producer E d (get_slot_at_time E d (timestamp b)) = Inr name
             \<and> producer_index d name = Some po)
      \<and> (flag_set skip skip_producer_schedule_check \<or> producer b = owner po)
      \<and> (flag_set skip skip_producer_signature \<or> validate_signee E b (signing_key po))
      \<and> transaction_mroot b = calculate_transaction_merkle_root E b)"
  by (auto simp: validate_block_header_def get_producer_def split: sum.splits option.splits)

theorem C5_validate_block_header_witness:
  "validate_block_header fork_env db_at_7 0 block_X = Inr (chain_producer 2 3)
   \<and> \<not> flag_set 0 skip_producer_schedule_check
   \<and> \<not> flag_set 0 skip_producer_signature
   \<and> producer block_X = owner (chain_producer 2 3)
   \<and> validate_signee fork_env block_X (signing_key (chain_producer 2 3))
   \<and> validate_block_header fork_env db_at_7 0 block_Y'_bad \<noteq> Inr (chain_producer 1 7)
   \<and> producer_index db_at_7 1 = Some (chain_producer 1 7)"
proof -
  have a: "get_scheduled_producer fork_env db_at_7 (get_slot_at_time fork_env db_at_7 (timestamp block_X)) = Inr 2"
    by code_simp
  have b: "producer_index db_at_7 2 = Some (chain_producer 2 3)"
    by code_simp
  have f: "\<not> flag_set 0 skip_producer_schedule_check" "\<not> flag_set 0 skip_producer_signature"
    by code_simp+
  have r: "previous block_X = head_block_id db_at_7
            \<and> time db_at_7 < to_time_point fork_env (timestamp block_X)
            \<and> (new_producers block_X = None \<or> unat (block_num block_X) mod blocks_per_round fork_env = 0)
            \<and> producer block_X = owner (chain_producer 2 3)
            \<and> validate_signee fork_env block_X (signing_key (chain_producer 2 3))
            \<and> transaction_mroot block_X = calculate_transaction_merkle_root fork_env block_X"
    by code_simp
  have b': "producer_index db_at_7 1 = Some (chain_producer 1 7)"
    by code_simp
  have r': "previous block_Y'_bad \<noteq> head_block_id db_at_7"
    by code_simp
  have e: "\<exists>name. get_scheduled_producer fork_env db_at_7 (get_slot_at_time fork_env db_at_7 (timestamp block_X)) = Inr name
              \<and> producer_index db_at_7 name = Some (chain_producer 2 3)"
    using a b by (intro exI[of _ 2]) simp
  have x: "validate_block_header fork_env db_at_7 0 block_X = Inr (chain_producer 2 3)"
    using C5_validate_block_header_accepts_iff [of fork_env db_at_7 0 block_X "chain_producer 2 3"] e r
    by simp
  have y: "validate_block_header fork_env db_at_7 0 block_Y'_bad \<noteq> Inr (chain_producer 1 7)"
    using C5_validate_block_header_accepts_iff [of fork_env db_at_7 0 block_Y'_bad "chain_producer 1 7"] r'
    by simp
  show ?thesis
    using x y f r b' by simp
qed

section \<open>Fork switches\<close>

text \<open>
  The chain at block 7 is what the model makes of the chain at block 5 when blocks 6
  and 7 are pushed.
\<close>

lemma chain_at_7_is_reached:
  "map_option chain_view
     (Option.bind (after (push_block fork_env (chain_block 6) 0 (chain_controller 5)))
        (\<lambda>c. after (push_block fork_env (chain_block 7) 0 c)))
   = Some (chain_view chain_at_7)"
  by code_simp

text \<open>
  Claim C1. When a block of the new branch fails during a fork switch, the controller
  removes the rest of the new branch from the fork database, restores the previous branch
  and re-raises the error, leaving the chain state as it was after the previous branch
  alone. On the chain at block 7, applying \<open>block_X\<close> makes block 7 irreversible, writes
  blocks 6 and 7 to the block log and activates the schedule pending since block 6, which
  empties the pending list. The switch to \<open>block_Y\<close>, \<open>block_Y'_bad\<close> fails at the second
  block; the restore pops back and applies \<open>block_X\<close> again, and this time the block log
  already ends at block 7, so the pending schedule is not activated: the error is re-raised
  and the head is \<open>block_X\<close> again, but the schedule of block 6 is still pending in the
  store, where it was activated and erased after \<open>block_X\<close> alone.
\<close>

theorem C1_failed_switch_state_differs:
  "map_option (\<lambda>c. (head_block_id (db c), pending_active_producers (db c)))
      chain_after_X
     = Some ((8, 8), [])
   \<and> Option.bind chain_after_XY
        (\<lambda>c. map_option (\<lambda>(r, c'). (r, head_block_id (db c'), pending_active_producers (db c')))
               (push_block fork_env block_Y'_bad 0 c))
     = Some (Inl assert_exception, (8, 8), [(6, ex_schedule 0)])"
  by code_simp

text \<open>
  Claim C7. The public \<open>push_block\<close> is to return a boolean that is true iff the push
  switched forks. \<^verbatim>\<open>_push_block\<close> computes that boolean, but the public operation is
  declared \<^verbatim>\<open>void\<close> and drops it: on the push of \<open>block_Y'\<close>, which switches forks, the
  inner operation yields \<open>True\<close> and the public one yields the unit value.
\<close>

theorem C7_push_block_drops_the_boolean:
  "Option.bind chain_after_XY (\<lambda>c. map_option fst (push_block' fork_env block_Y' c)) = Some (Inr True)
   \<and> Option.bind chain_after_XY (\<lambda>c. map_option fst (push_block fork_env block_Y' 0 c)) = Some (Inr ())
   \<and> map_option (\<lambda>c. head_block_id (db c)) chain_after_XYY' = Some (9, 13)"
  by code_simp

section \<open>Popping a block\<close>

text \<open>
  The controller \<open>pending_chain\<close> is what one pushed transaction leaves on an empty chain.
\<close>

lemma pending_chain_is_reached:
  "map_option pending_view (after (push_transaction fork_env transfer_trx 0 ex_controller))
     = Some (pending_view pending_chain)"
  by code_simp

text \<open>
  Claim C10. \<open>pop_block\<close> resets the pending block session before it checks that a head
  block exists: when a pending session is open and the head block of the rolled-back
  store is found neither in the fork database nor in the block log, the call raises
  \<open>pop_empty_chain\<close> and the store is nevertheless rolled back to the state saved when
  the pending session was opened, so the pending transactions' effects are gone.
\<close>

theorem C10_pop_block_discards_pending_before_check:
  assumes "pending_block_session c"
    and "undo_stack c = d # ds"
    and "fork_fetch_block E (fork_db c) (head_block_id d) = None"
    and "read_block_by_id E (block_log c) (head_block_id d) = None"
  shows "pop_block E c =
           Some (Inl pop_empty_chain,
                 c\<lparr>db := d, undo_stack := ds, revision := revision c - 1,
                   pending_block_session := False\<rparr>)"
  using assms
  by (simp add: pop_block_def reset_pending_block_session_def db_undo_def Let_def
      get_head_block_id_def fetch_block_by_id_def throw_def)

theorem C10_pop_block_on_empty_chain_witness:
  "pending_block_session pending_chain
   \<and> contract_tables (db pending_chain) = [5]
   \<and> map_option (\<lambda>(r, c'). (r, contract_tables (db c'), pending_block_session c', undo_stack c' = []))
        (pop_block fork_env pending_chain)
       = Some (Inl pop_empty_chain, [], False, True)"
proof -
  have s: "pending_block_session pending_chain"
    by (simp add: pending_chain_def)
  have u: "undo_stack pending_chain = ex_db # []"
    by (simp add: pending_chain_def)
  have f: "fork_fetch_block fork_env (fork_db pending_chain) (head_block_id ex_db) = None"
    by (simp add: pending_chain_def ex_controller_def fork_fetch_block_def)
  have l: "read_block_by_id fork_env (block_log pending_chain) (head_block_id ex_db) = None"
    by (simp add: pending_chain_def ex_controller_def read_block_by_id_def)
  have t: "contract_tables (db pending_chain) = [5]"
    by (simp add: pending_chain_def)
  have e: "contract_tables ex_db = []"
    by (simp add: ex_db_def)
  show ?thesis
    using C10_pop_block_discards_pending_before_check [OF s u f l] s t e by simp
qed

section \<open>Duplicate transactions\<close>

text \<open>
  Claim C4. A transaction accepted by \<open>push_transaction\<close> with the duplicate check not
  skipped is to be rejected with \<open>tx_duplicate\<close> when pushed again.
  \<^verbatim>\<open>_push_transaction\<close> calls neither \<^verbatim>\<open>validate_uniqueness\<close> nor
  \<^verbatim>\<open>record_transaction\<close>: the second push of the same transaction is accepted, runs its
  action a second time, and the transaction is still unknown to the dedup index.
\<close>

theorem C4_second_push_is_accepted:
  "map_option fst (push_transaction fork_env transfer_trx 0 ex_controller) = Some (Inr (transfer_trace 0 0))
   \<and> Option.bind (after (push_transaction fork_env transfer_trx 0 ex_controller))
        (\<lambda>c. map_option (\<lambda>(r, c'). (r, is_known_transaction c' (transaction_digest fork_env transfer_trx),
                                      contract_tables (db c')))
               (push_transaction fork_env transfer_trx 0 c))
       = Some (Inr (transfer_trace 0 0), False, [5, 5])"
  by code_simp

section \<open>Transaction authorization\<close>


section \<open>Action traces of an applied block\<close>










section \<open>Monotonicity of the last irreversible block\<close>

text \<open>
  \<open>update_last_irreversible_block\<close> never decreases the stored number, and neither does
  \<open>generate_block\<close> nor a push of a block that does not switch forks
  (\<^verbatim>\<open>_push_block\<close> returning false), whatever their outcome. Contract execution is
  assumed not to write the number.
\<close>

lemma lib_never_decreases_without_fork_switch:
  assumes "\<And>d t a d' ats dts. exec E d t a = Inr (d', ats, dts) \<Longrightarrow>
             last_irreversible_block_num d' = last_irreversible_block_num d"
  shows "(update_last_irreversible_block E c = Some (r1, c1) \<longrightarrow>
            last_irreversible_block_num (db c) \<le> last_irreversible_block_num (db c1))
       \<and> (generate_block E w p k skip c = Some (r2, c2) \<longrightarrow>
            last_irreversible_block_num (db c) \<le> last_irreversible_block_num (db c2))
       \<and> (push_block' E b c = Some (Inr False, c3) \<longrightarrow>
            last_irreversible_block_num (db c) \<le> last_irreversible_block_num (db c3))"
proof -
  from assms have e: "exec_keeps_lib E"
    unfolding exec_keeps_lib_def by blast
  show ?thesis
    using monoD[OF steady_mono[OF steady_update_last_irreversible_block], of E c r1 c1]
      monoD[OF mono_generate_block, of E w p k skip c r2 c2]
      push_block'_False_mono[OF e, of b c c3]
    by (auto simp: lib_le_def)
qed

text \<open>Pushing \<open>block_X\<close> on the chain at block 7 does not switch forks and raises 5 to 7.\<close>

lemma lib_never_decreases_example:
  "\<exists>c3. push_block' fork_env block_X chain_at_7 = Some (Inr False, c3)
     \<and> last_irreversible_block_num (db chain_at_7) = 5
     \<and> last_irreversible_block_num (db chain_at_7) \<le> last_irreversible_block_num (db c3)"
proof -
  have "map_option fst (push_block' fork_env block_X chain_at_7) = Some (Inr False)"
    by code_simp
  then obtain c3 where run: "push_block' fork_env block_X chain_at_7 = Some (Inr False, c3)"
    by auto
  have five: "last_irreversible_block_num (db chain_at_7) = 5"
    by code_simp
  have "(update_last_irreversible_block fork_env chain_at_7 = Some (Inr (), chain_at_7) \<longrightarrow>
            last_irreversible_block_num (db chain_at_7) \<le> last_irreversible_block_num (db chain_at_7))
       \<and> (generate_block fork_env 8 2 102 0 chain_at_7 = Some (Inr block_X, chain_at_7) \<longrightarrow>
            last_irreversible_block_num (db chain_at_7) \<le> last_irreversible_block_num (db chain_at_7))
       \<and> (push_block' fork_env block_X chain_at_7 = Some (Inr False, c3) \<longrightarrow>
            last_irreversible_block_num (db chain_at_7) \<le> last_irreversible_block_num (db c3))"
    by (rule lib_never_decreases_without_fork_switch) (auto simp: fork_env_def ex_env_def)
  with run five show ?thesis by blast
qed

text \<open>
  Claim C2. Across every sequence of \<open>push_block\<close>, \<open>generate_block\<close> and
  \<open>update_last_irreversible_block\<close> the stored \<open>last_irreversible_block_num\<close> is never
  to decrease. \<open>update_last_irreversible_block\<close> guards its write accordingly, but a fork
  switch pops blocks by undoing their store sessions, which restores the number stored
  before them, and the new branch need not confirm as far: after \<open>block_X\<close> the stored
  value is 7, after the switch to the longer branch \<open>block_Y\<close>, \<open>block_Y'\<close> it is 5.
\<close>

theorem C2_fork_switch_lowers_lib:
  "map_option (\<lambda>c. last_irreversible_block_num (db c)) chain_after_X = Some 7
   \<and> map_option (\<lambda>c. last_irreversible_block_num (db c)) chain_after_XYY' = Some 5"
  by code_simp

section \<open>Advancing irreversibility\<close>

text \<open>
  When the candidate exceeds the stored value, the block log ends at the stored value,
  the blocks up to the candidate can be fetched and the pending schedules lie all below
  or all not below the candidate, \<open>update_last_irreversible_block\<close> returns: the stored
  value is the candidate, the blocks after the old value up to the candidate have been
  appended to the block log in order, and the undo history is cut at the candidate.
\<close>

lemma fetch_block_by_number_num:
  "fetch_block_by_number E c n = Some b \<Longrightarrow> block_num b = n"
  by (auto simp: fetch_block_by_number_def read_block_by_num_def find_Some_iff
      split: option.splits if_splits)

lemma write_irreversible_log:
  "write_irreversible E ns c = (Inr (), c2) \<Longrightarrow>
   \<exists>bs. block_log c2 = block_log c @ bs \<and> map block_num bs = ns"
proof (induction ns arbitrary: c)
  case Nil
  then show ?case by simp
next
  case (Cons n ns)
  show ?case
  proof (cases "fetch_block_by_number E c n")
    case None
    with Cons.prems show ?thesis by simp
  next
    case (Some blk)
    with Cons.prems have "write_irreversible E ns
        (c\<lparr>block_log := block_log_append (block_log c) blk,
           irreversible_signals := irreversible_signals c @ [blk]\<rparr>) = (Inr (), c2)"
      by simp
    from Cons.IH[OF this] obtain bs where
      "block_log c2 = (block_log c @ [blk]) @ bs" "map block_num bs = ns"
      by (auto simp: block_log_append_def)
    with fetch_block_by_number_num[OF Some]
    have "block_log c2 = block_log c @ (blk # bs) \<and> map block_num (blk # bs) = n # ns"
      by simp
    then show ?thesis by (intro exI[of _ "blk # bs"])
  qed
qed

lemma write_irreversible_revision:
  "write_irreversible E ns c = (r, c') \<Longrightarrow> revision c' = revision c"
proof (induction ns arbitrary: c)
  case Nil
  then show ?case by simp
next
  case (Cons n ns)
  show ?case
  proof (cases "fetch_block_by_number E c n")
    case None
    with Cons.prems show ?thesis by simp
  next
    case (Some blk)
    with Cons.prems have "write_irreversible E ns
        (c\<lparr>block_log := block_log_append (block_log c) blk,
           irreversible_signals := irreversible_signals c @ [blk]\<rparr>) = (r, c')"
      by simp
    from Cons.IH[OF this] show ?thesis by simp
  qed
qed

lemma find_new_schedule_none_below:
  "list_all (\<lambda>x. \<not> fst x < n) pend \<Longrightarrow> foldl (\<lambda>acc item. if fst item < n then Some (snd item) else acc) acc pend = acc"
  by (induction pend arbitrary: acc) simp_all

lemma activate_pending_total:
  assumes "list_all (\<lambda>x. fst x < n) (pending_active_producers (db c))
           \<or> list_all (\<lambda>x. \<not> fst x < n) (pending_active_producers (db c))"
  shows "\<exists>c3. activate_pending n k c = Some c3
           \<and> last_irreversible_block_num (db c3) = last_irreversible_block_num (db c)
           \<and> undo_stack c3 = undo_stack c \<and> revision c3 = revision c \<and> block_log c3 = block_log c"
proof (cases "k < n")
  case False
  then show ?thesis by (simp add: activate_pending_def)
next
  case True
  show ?thesis
  proof (cases "find_new_schedule n (pending_active_producers (db c))")
    case None
    with True show ?thesis by (simp add: activate_pending_def)
  next
    case (Some sch)
    have "\<not> list_all (\<lambda>x. \<not> fst x < n) (pending_active_producers (db c))"
    proof
      assume "list_all (\<lambda>x. \<not> fst x < n) (pending_active_producers (db c))"
      from find_new_schedule_none_below[OF this, of None] Some show False
        by (simp add: find_new_schedule_def)
    qed
    with assms have "\<forall>x\<in>set (pending_active_producers (db c)). fst x < n"
      by (auto simp: list_all_iff)
    from erase_pending_all_below[OF this] True Some show ?thesis
      by (simp add: activate_pending_def db_modify_def)
  qed
qed

lemma update_last_irreversible_block_returns:
  assumes objs: "collect_producers (db c) (producers (active_producers (db c))) = Inr objs"
    and offset: "offset = EOS_PERCENT E (length objs) (percent_100 E - irreversible_threshold_percent E)"
      "offset < length objs"
    and new_lib: "new_lib = sort (map last_confirmed_block_num objs) ! offset"
    and greater: "last_irreversible_block_num (db c) < new_lib"
    and on_disk: "last_block_on_disk c = last_irreversible_block_num (db c)"
    and written: "fst (write_newly_irreversible E new_lib (advance_lib new_lib c)) = Inr ()"
    and pending: "list_all (\<lambda>x. fst x < new_lib) (pending_active_producers (db c))
                  \<or> list_all (\<lambda>x. \<not> fst x < new_lib) (pending_active_producers (db c))"
  shows "\<exists>c' bs. update_last_irreversible_block E c = Some (Inr (), c')
           \<and> last_irreversible_block_num (db c') = new_lib
           \<and> block_log c' = block_log c @ bs
           \<and> map block_num bs = map of_nat [unat (last_irreversible_block_num (db c)) + 1 ..< unat new_lib + 1]
           \<and> undo_stack c' = take (nat (revision c - uint new_lib)) (undo_stack c)"
proof -
  define c1 where "c1 = advance_lib new_lib c"
  obtain c2 where w: "write_newly_irreversible E new_lib c1 = (Inr (), c2)"
    using written by (cases "write_newly_irreversible E new_lib c1") (auto simp: c1_def)
  have c1: "last_irreversible_block_num (db c1) = new_lib" "block_log c1 = block_log c"
    "undo_stack c1 = undo_stack c" "revision c1 = revision c"
    "pending_active_producers (db c1) = pending_active_producers (db c)"
    using greater by (simp_all add: c1_def advance_lib_def db_modify_def)
  have disk1: "last_block_on_disk c1 = last_irreversible_block_num (db c)"
    using on_disk c1(2) by (simp add: last_block_on_disk_def)
  with greater w have "write_irreversible E
      (map of_nat [unat (last_irreversible_block_num (db c)) + 1 ..< unat new_lib + 1]) c1 = (Inr (), c2)"
    by (simp add: write_newly_irreversible_def)
  from write_irreversible_log[OF this] obtain bs where
    bs: "block_log c2 = block_log c @ bs"
      "map block_num bs = map of_nat [unat (last_irreversible_block_num (db c)) + 1 ..< unat new_lib + 1]"
    using c1(2) by auto
  from write_newly_irreversible_keeps[OF w] have c2: "db c2 = db c1" "undo_stack c2 = undo_stack c1"
    by simp_all
  have rev2: "revision c2 = revision c1"
    using w by (auto simp: write_newly_irreversible_def dest: write_irreversible_revision split: if_splits)
  from pending c1(5) c2(1) have "list_all (\<lambda>x. fst x < new_lib) (pending_active_producers (db c2))
           \<or> list_all (\<lambda>x. \<not> fst x < new_lib) (pending_active_producers (db c2))"
    by simp
  from activate_pending_total[OF this, of "last_block_on_disk c1"] obtain c3 where
    c3: "activate_pending new_lib (last_block_on_disk c1) c2 = Some c3"
      "last_irreversible_block_num (db c3) = last_irreversible_block_num (db c2)"
      "undo_stack c3 = undo_stack c2" "revision c3 = revision c2" "block_log c3 = block_log c2"
    by blast
  have run: "update_last_irreversible_block E c = Some (Inr (), trim_and_commit new_lib c3)"
    using objs offset new_lib w c3(1)
    by (simp add: update_last_irreversible_block_def Let_def nth_confirmed_def c1_def)
  have "last_irreversible_block_num (db (trim_and_commit new_lib c3)) = new_lib"
    "block_log (trim_and_commit new_lib c3) = block_log c @ bs"
    "undo_stack (trim_and_commit new_lib c3) = take (nat (revision c - uint new_lib)) (undo_stack c)"
    using c1 c2 c3 rev2 bs by (simp_all add: trim_and_commit_def db_commit_def)
  with run bs(2) show ?thesis by blast
qed

text \<open>
  With 21 producers and a threshold of 66 percent the index is 7; the value at that index
  rises from 10 to 15 when producer 8 produces block 28. The stored value becomes 15,
  blocks 11 to 15 are appended, and of the 18 undo records the 13 of blocks 16 to 28
  remain.
\<close>

lemma irreversibility_advance_example:
  "map_option (\<lambda>(r, c'). (r, last_irreversible_block_num (db c'), map block_num (block_log c'),
              length (undo_stack c')))
          (update_last_irreversible_block (ex_env 21 1) wide_controller)
   = Some (Inr (), 15, [1, 2, 3, 4, 5, 6, 7, 8, 9, 10, 11, 12, 13, 14, 15], 13)"
  by code_simp

text \<open>
  Claim C3. Whenever \<open>update_last_irreversible_block\<close> runs, the candidate is the element
  at index \<open>(100 - irreversible_threshold_percent) * L / 100\<close> of the ascending
  \<open>last_confirmed_block_num\<close> values; if it exceeds the stored value the stored value
  advances, the newly irreversible blocks are appended to the block log and the store
  commits the candidate. On the chain below the candidate 6 exceeds the stored 2, and the
  operation never reaches the commit: after advancing and appending blocks 3 to 6 it stays
  in the loop that erases pending schedules, which is the defect of claim C9.
\<close>

theorem C3_commit_not_reached:
  "update_last_irreversible_block (ex_env 3 1) stall_controller = None"
proof (rule update_lib_diverges[where objs = "[ex_producer 1 6, ex_producer 2 7, ex_producer 3 2]"
        and offset = 1 and new_lib = 6, OF _ _ _ _ refl])
  show "collect_producers (db stall_controller) (producers (active_producers (db stall_controller)))
          = Inr [ex_producer 1 6, ex_producer 2 7, ex_producer 3 2]"
    by (simp add: stall_controller_def ex_controller_def ex_db_def ex_schedule_def get_producer_def)
  show "1 = EOS_PERCENT (ex_env 3 1) (length [ex_producer 1 6, ex_producer 2 7, ex_producer 3 2])
         (percent_100 (ex_env 3 1) - irreversible_threshold_percent (ex_env 3 1))"
    by (simp add: EOS_PERCENT_def ex_env_def)
  show "1 < length [ex_producer 1 6, ex_producer 2 7, ex_producer 3 2]" by simp
  show "6 = nth_confirmed [ex_producer 1 6, ex_producer 2 7, ex_producer 3 2] 1"
    by code_simp
  show "fst (write_newly_irreversible (ex_env 3 1) 6 (advance_lib 6 stall_controller)) = Inr ()"
    by code_simp
  show "last_block_on_disk (advance_lib 6 stall_controller) < 6"
    by code_simp
  show "find_new_schedule 6 (pending_active_producers (db (snd (write_newly_irreversible (ex_env 3 1) 6 (advance_lib 6 stall_controller))))) \<noteq> None"
    by code_simp
  show "\<exists>x\<in>set (pending_active_producers (db (snd (write_newly_irreversible (ex_env 3 1) 6 (advance_lib 6 stall_controller))))). \<not> fst x < 6"
    by code_simp
qed

end
